theory Spec2Isabelle
  imports Complex_Main "HOL-Library.Sublist"
begin

section \<open>Python values used by the extraction pipeline\<close>

text \<open>
  The exceptions that the modelled parts of \<^verbatim>\<open>extract_skeleton.py\<close> and
  \<^verbatim>\<open>extract_skeleton_1.py\<close> can raise outside a \<^verbatim>\<open>try\<close> block.
\<close>

datatype py_error = IndexError | ZeroDivisionError | ValueError | OverflowError | TypeError

text \<open>
  A Python float. Finite values are idealised as reals (rounding and overflow of finite
  arithmetic are not modelled); the special values are kept, because the running minima and
  maxima of the extents start at \<^verbatim>\<open>float('inf')\<close> and \<^verbatim>\<open>float('-inf')\<close>.
\<close>

datatype pyfloat = NegInf | Fin real | PosInf | NaN

fun pf_neg :: "pyfloat \<Rightarrow> pyfloat" where
  "pf_neg NegInf = PosInf"
| "pf_neg PosInf = NegInf"
| "pf_neg (Fin a) = Fin (- a)"
| "pf_neg NaN = NaN"

fun pf_add :: "pyfloat \<Rightarrow> pyfloat \<Rightarrow> pyfloat" where
  "pf_add (Fin a) (Fin b) = Fin (a + b)"
| "pf_add (Fin a) PosInf = PosInf"
| "pf_add (Fin a) NegInf = NegInf"
| "pf_add PosInf (Fin b) = PosInf"
| "pf_add NegInf (Fin b) = NegInf"
| "pf_add PosInf PosInf = PosInf"
| "pf_add NegInf NegInf = NegInf"
| "pf_add PosInf NegInf = NaN"
| "pf_add NegInf PosInf = NaN"
| "pf_add NaN b = NaN"
| "pf_add a NaN = NaN"

definition pf_sub :: "pyfloat \<Rightarrow> pyfloat \<Rightarrow> pyfloat" where
  "pf_sub a b = pf_add a (pf_neg b)"

text \<open>The product of an infinity with a finite factor: the sign decides, zero gives NaN.\<close>

definition inf_times :: "pyfloat \<Rightarrow> real \<Rightarrow> pyfloat" where
  "inf_times i a = (if a = 0 then NaN else if 0 < a then i else pf_neg i)"

fun pf_mul :: "pyfloat \<Rightarrow> pyfloat \<Rightarrow> pyfloat" where
  "pf_mul (Fin a) (Fin b) = Fin (a * b)"
| "pf_mul (Fin a) PosInf = inf_times PosInf a"
| "pf_mul (Fin a) NegInf = inf_times NegInf a"
| "pf_mul PosInf (Fin b) = inf_times PosInf b"
| "pf_mul NegInf (Fin b) = inf_times NegInf b"
| "pf_mul PosInf PosInf = PosInf"
| "pf_mul NegInf NegInf = PosInf"
| "pf_mul PosInf NegInf = NegInf"
| "pf_mul NegInf PosInf = NegInf"
| "pf_mul NaN b = NaN"
| "pf_mul a NaN = NaN"

text \<open>Comparison \<^verbatim>\<open><\<close>: every comparison with NaN is false.\<close>

fun pf_lt :: "pyfloat \<Rightarrow> pyfloat \<Rightarrow> bool" where
  "pf_lt (Fin a) (Fin b) = (a < b)"
| "pf_lt NegInf (Fin b) = True"
| "pf_lt NegInf PosInf = True"
| "pf_lt (Fin a) PosInf = True"
| "pf_lt a b = False"

text \<open>
  \<^verbatim>\<open>min(a, b)\<close> and \<^verbatim>\<open>max(a, b)\<close> of Python keep the first argument unless a later one is
  strictly smaller (larger).
\<close>

definition py_min :: "pyfloat \<Rightarrow> pyfloat \<Rightarrow> pyfloat" where
  "py_min a b = (if pf_lt b a then b else a)"

definition py_max :: "pyfloat \<Rightarrow> pyfloat \<Rightarrow> pyfloat" where
  "py_max a b = (if pf_lt a b then b else a)"

text \<open>
  True division of two Python floats raises on a zero divisor; the same division on a
  \<^verbatim>\<open>numpy.float64\<close> gives an infinity or NaN instead.
\<close>

fun pf_div_vals :: "pyfloat \<Rightarrow> pyfloat \<Rightarrow> pyfloat" where
  "pf_div_vals (Fin a) (Fin b) =
     (if b = 0 then (if a = 0 then NaN else if 0 < a then PosInf else NegInf) else Fin (a / b))"
| "pf_div_vals (Fin a) PosInf = Fin 0"
| "pf_div_vals (Fin a) NegInf = Fin 0"
| "pf_div_vals PosInf (Fin b) = (if 0 \<le> b then PosInf else NegInf)"
| "pf_div_vals NegInf (Fin b) = (if 0 \<le> b then NegInf else PosInf)"
| "pf_div_vals a b = NaN"

definition py_truediv :: "pyfloat \<Rightarrow> pyfloat \<Rightarrow> py_error + pyfloat" where
  "py_truediv a b = (if b = Fin 0 then Inl ZeroDivisionError else Inr (pf_div_vals a b))"

definition np_truediv :: "pyfloat \<Rightarrow> pyfloat \<Rightarrow> pyfloat" where
  "np_truediv a b = pf_div_vals a b"

text \<open>\<^verbatim>\<open>int(x)\<close> truncates towards zero and raises on NaN and on an infinity.\<close>

definition trunc_real :: "real \<Rightarrow> int" where
  "trunc_real r = (if 0 \<le> r then \<lfloor>r\<rfloor> else \<lceil>r\<rceil>)"

fun py_int :: "pyfloat \<Rightarrow> py_error + int" where
  "py_int (Fin a) = Inr (trunc_real a)"
| "py_int NaN = Inl ValueError"
| "py_int PosInf = Inl OverflowError"
| "py_int NegInf = Inl OverflowError"

type_synonym pt = "pyfloat \<times> pyfloat"
type_synonym polygon = "pt list"
type_synonym extents = "pyfloat \<times> pyfloat \<times> pyfloat \<times> pyfloat"

text \<open>A wall is a list of segments, a segment a pair of end points.\<close>

type_synonym segment = "pt \<times> pt"
type_synonym wall = "segment list"

section \<open>Python strings\<close>

text \<open>
  A Python \<^verbatim>\<open>str\<close> is a sequence of Unicode code points. The layer names and keywords of
  the drawings are mostly Chinese, so a string is modelled as the list of its code points;
  \<open>asc\<close> embeds an ASCII literal.
\<close>

type_synonym ustr = "nat list"

definition asc :: "string \<Rightarrow> ustr" where
  "asc s = map of_char s"

text \<open>\<^verbatim>\<open>k in name\<close>: \<open>k\<close> occurs in \<open>name\<close> as a contiguous substring.\<close>

fun contains :: "ustr \<Rightarrow> ustr \<Rightarrow> bool" where
  "contains k [] = (k = [])"
| "contains k (c # cs) = (prefix k (c # cs) \<or> contains k cs)"

text \<open>
  \<^verbatim>\<open>str.lower\<close> over the whole of Unicode is a parameter of the functions that call it
  (written \<open>lower\<close>). \<open>ascii_lower\<close> is the instance used on concrete inputs: it agrees with
  \<^verbatim>\<open>str.lower\<close> on every string whose cased characters are all ASCII, in particular on
  every keyword of the tables below.
\<close>

definition ascii_lower :: "ustr \<Rightarrow> ustr" where
  "ascii_lower s = map (\<lambda>c. if 65 \<le> c \<and> c \<le> 90 then c + 32 else c) s"

section \<open>The raster room detector\<close>

text \<open>
  A numpy image is a list of rows. \<^verbatim>\<open>img[r, c]\<close> raises IndexError outside the array
  (the indices used by the detector are never negative).
\<close>

type_synonym image = "nat list list"

definition px :: "image \<Rightarrow> nat \<Rightarrow> nat \<Rightarrow> py_error + nat" where
  "px im r c =
     (if r < length im \<and> c < length (im ! r) then Inr (im ! r ! c) else Inl IndexError)"

text \<open>One entry of \<^verbatim>\<open>skimage.measure.regionprops\<close>, with the fields the detector reads.\<close>

record regionprop =
  label :: nat
  area :: int
  perimeter :: real

text \<open>
  The image-processing routines of OpenCV and scikit-image that the pipeline calls. They
  are not part of the repository and are taken as parameters:
  \<^verbatim>\<open>cv2.line(img, p, q, colour, thickness)\<close>, \<^verbatim>\<open>cv2.morphologyEx(img, cv2.MORPH_CLOSE, kernel)\<close>
  with the 3x3 kernel, \<^verbatim>\<open>measure.label(img, connectivity=2)\<close>, \<^verbatim>\<open>measure.regionprops\<close>,
  \<^verbatim>\<open>measure.find_contours(labeled_img == label, 0.5)\<close> (contour points are (row, column)
  pairs) and \<^verbatim>\<open>cv2.approxPolyDP(contour, epsilon, closed)\<close>.
\<close>

record vision =
  cv2_line :: "image \<Rightarrow> int \<times> int \<Rightarrow> int \<times> int \<Rightarrow> nat \<Rightarrow> nat \<Rightarrow> image"
  morph_close :: "image \<Rightarrow> image"
  measure_label :: "image \<Rightarrow> image"
  regionprops :: "image \<Rightarrow> regionprop list"
  find_contours :: "image \<Rightarrow> nat \<Rightarrow> (real \<times> real) list list"
  approxPolyDP :: "polygon \<Rightarrow> real \<Rightarrow> bool \<Rightarrow> polygon"

text \<open>\<^verbatim>\<open>filled_img = np.ones_like(img); filled_img[img > 0] = 0\<close>\<close>

definition invert_walls :: "image \<Rightarrow> image" where
  "invert_walls img = map (map (\<lambda>v. if 0 < v then 0 else 1)) img"

text \<open>
  The two loops that collect the labels met on the image border. The first loop reads
  rows \<open>0\<close> and \<open>img_size - 1\<close>, the second columns \<open>0\<close> and \<open>img_size - 1\<close>.
\<close>

definition add_label :: "nat \<Rightarrow> nat set \<Rightarrow> nat set" where
  "add_label v s = (if 0 < v then insert v s else s)"

fun edge_rows :: "image \<Rightarrow> nat \<Rightarrow> nat list \<Rightarrow> nat set \<Rightarrow> py_error + nat set" where
  "edge_rows lab n [] acc = Inr acc"
| "edge_rows lab n (x # xs) acc =
     (case px lab 0 x of
        Inl e \<Rightarrow> Inl e
      | Inr a \<Rightarrow>
          (case px lab (n - 1) x of
             Inl e \<Rightarrow> Inl e
           | Inr b \<Rightarrow> edge_rows lab n xs (add_label b (add_label a acc))))"

fun edge_cols :: "image \<Rightarrow> nat \<Rightarrow> nat list \<Rightarrow> nat set \<Rightarrow> py_error + nat set" where
  "edge_cols lab n [] acc = Inr acc"
| "edge_cols lab n (y # ys) acc =
     (case px lab y 0 of
        Inl e \<Rightarrow> Inl e
      | Inr a \<Rightarrow>
          (case px lab y (n - 1) of
             Inl e \<Rightarrow> Inl e
           | Inr b \<Rightarrow> edge_cols lab n ys (add_label b (add_label a acc))))"

definition edge_labels :: "image \<Rightarrow> nat \<Rightarrow> py_error + nat set" where
  "edge_labels lab n =
     (case edge_rows lab n [0..<n] {} of
        Inl e \<Rightarrow> Inl e
      | Inr acc \<Rightarrow> edge_cols lab n [0..<n] acc)"

text \<open>
  Filter 3, the shape test. The division of the compactness formula is written as a
  checked division, so that a zero divisor would show as ZeroDivisionError. The result
  says whether the component is rejected.
\<close>

definition checked_div :: "real \<Rightarrow> real \<Rightarrow> py_error + real" where
  "checked_div a b = (if b = 0 then Inl ZeroDivisionError else Inr (a / b))"

definition shape_filter :: "int \<Rightarrow> real \<Rightarrow> py_error + bool" where
  "shape_filter a p =
     (if 0 < p then
        (case checked_div (4 * pi * real_of_int a) (p * p) of
           Inl e \<Rightarrow> Inl e
         | Inr compactness \<Rightarrow> Inr (compactness < 3 / 100))
      else Inr False)"

text \<open>\<^verbatim>\<open>max(contours, key=len)\<close>: the first contour of maximal length.\<close>

fun longest :: "'a list \<Rightarrow> 'a list list \<Rightarrow> 'a list" where
  "longest best [] = best"
| "longest best (c # cs) = longest (if length best < length c then c else best) cs"

text \<open>The inverse affine map of a contour point (row \<open>y\<close>, column \<open>x\<close>), on numpy floats.\<close>

definition to_drawing :: "extents \<Rightarrow> nat \<Rightarrow> real \<times> real \<Rightarrow> pt" where
  "to_drawing ext img_size yx =
     (case ext of (min_x, min_y, max_x, max_y) \<Rightarrow>
      case yx of (y, x) \<Rightarrow>
        (pf_add min_x (pf_mul (np_truediv (Fin x) (Fin (real_of_int (int img_size - 1))))
                              (pf_sub max_x min_x)),
         pf_add min_y (pf_mul (np_truediv (Fin y) (Fin (real_of_int (int img_size - 1))))
                              (pf_sub max_y min_y))))"

definition simplify_polygon :: "vision \<Rightarrow> polygon \<Rightarrow> real \<Rightarrow> polygon" where
  "simplify_polygon lib points tolerance = approxPolyDP lib points tolerance True"

text \<open>
  The part of the loop body after the three filters: contour extraction, mapping,
  simplification and filter 4 (the vertex count). \<open>None\<close> means that no room is appended.
\<close>

definition contour_stage ::
  "vision \<Rightarrow> image \<Rightarrow> extents \<Rightarrow> nat \<Rightarrow> regionprop \<Rightarrow> polygon option" where
  "contour_stage lib lab ext img_size p =
     (case find_contours lib lab (label p) of
        [] \<Rightarrow> None
      | c # cs \<Rightarrow>
          (let longest_contour = longest c cs;
               room_poly = map (to_drawing ext img_size) longest_contour;
               tolerance = (if 5000 < area p then 2 else 1);
               room_poly = (if 3 < length room_poly
                            then simplify_polygon lib room_poly tolerance else room_poly)
           in if length room_poly < 3 then None
              else if 100 < length room_poly then None
              else Some room_poly))"

text \<open>Filters 2 and 3 followed by the contour stage.\<close>

definition after_area_filter ::
  "vision \<Rightarrow> image \<Rightarrow> extents \<Rightarrow> nat \<Rightarrow> nat set \<Rightarrow> regionprop \<Rightarrow>
   py_error + polygon option" where
  "after_area_filter lib lab ext img_size edge p =
     (if label p \<in> edge then Inr None
      else
        (case shape_filter (area p) (perimeter p) of
           Inl e \<Rightarrow> Inl e
         | Inr True \<Rightarrow> Inr None
         | Inr False \<Rightarrow> Inr (contour_stage lib lab ext img_size p)))"

text \<open>The loop body: filter 1 (the area range) first.\<close>

definition examine ::
  "vision \<Rightarrow> image \<Rightarrow> extents \<Rightarrow> nat \<Rightarrow> int \<Rightarrow> int \<Rightarrow> nat set \<Rightarrow> regionprop \<Rightarrow>
   py_error + polygon option" where
  "examine lib lab ext img_size min_px max_px edge p =
     (if area p < min_px then Inr None
      else if max_px < area p then Inr None
      else after_area_filter lib lab ext img_size edge p)"

text \<open>
  The loop over the region properties. Each room is kept together with the label of the
  component it was traced from; the label is not part of the Python result and is dropped
  by \<open>identify_rooms\<close>.
\<close>

fun scan_props ::
  "vision \<Rightarrow> image \<Rightarrow> extents \<Rightarrow> nat \<Rightarrow> int \<Rightarrow> int \<Rightarrow> nat set \<Rightarrow> regionprop list \<Rightarrow>
   py_error + (nat \<times> polygon) list" where
  "scan_props lib lab ext img_size min_px max_px edge [] = Inr []"
| "scan_props lib lab ext img_size min_px max_px edge (p # ps) =
     (case examine lib lab ext img_size min_px max_px edge p of
        Inl e \<Rightarrow> Inl e
      | Inr r \<Rightarrow>
          (case scan_props lib lab ext img_size min_px max_px edge ps of
             Inl e \<Rightarrow> Inl e
           | Inr rs \<Rightarrow> Inr (case r of None \<Rightarrow> rs | Some poly \<Rightarrow> (label p, poly) # rs)))"

text \<open>The thresholds in pixels, from the percentages.\<close>

definition min_room_area_pixels :: "real \<Rightarrow> nat \<Rightarrow> int" where
  "min_room_area_pixels min_room_area img_size =
     trunc_real ((min_room_area / 100) * real (img_size * img_size))"

definition max_room_area_pixels :: "real option \<Rightarrow> nat \<Rightarrow> int" where
  "max_room_area_pixels max_room_area img_size =
     (case max_room_area of
        None \<Rightarrow> trunc_real ((6 / 10) * real img_size * real img_size)
      | Some m \<Rightarrow> trunc_real ((m / 100) * real (img_size * img_size)))"

text \<open>The labelled floor mask that the detector computes from the wall image.\<close>

definition labeled_img :: "vision \<Rightarrow> image \<Rightarrow> image" where
  "labeled_img lib img = measure_label lib (morph_close lib (invert_walls img))"

text \<open>
  \<open>identify_rooms\<close>. \<^verbatim>\<open>img_size = img.shape[0]\<close>; the division
  \<^verbatim>\<open>total_area / (img_size * img_size)\<close> of two Python numbers raises for an empty image
  (its value is not used afterwards). Writing the debug images is inside \<^verbatim>\<open>try\<close> blocks
  and has no effect on the result.
\<close>

definition identify_rooms_labelled ::
  "vision \<Rightarrow> image \<Rightarrow> extents \<Rightarrow> real \<Rightarrow> real option \<Rightarrow> py_error + (nat \<times> polygon) list" where
  "identify_rooms_labelled lib img ext min_room_area max_room_area =
     (let img_size = length img in
      case ext of (min_x, min_y, max_x, max_y) \<Rightarrow>
      (case py_truediv (pf_mul (pf_sub max_x min_x) (pf_sub max_y min_y))
                       (Fin (real (img_size * img_size))) of
         Inl e \<Rightarrow> Inl e
       | Inr pixel_area_ratio \<Rightarrow>
           (let min_px = min_room_area_pixels min_room_area img_size;
                max_px = max_room_area_pixels max_room_area img_size;
                lab = labeled_img lib img
            in case edge_labels lab img_size of
                 Inl e \<Rightarrow> Inl e
               | Inr edge \<Rightarrow>
                   scan_props lib lab ext img_size min_px max_px edge (regionprops lib lab))))"

definition identify_rooms ::
  "vision \<Rightarrow> image \<Rightarrow> extents \<Rightarrow> real \<Rightarrow> real option \<Rightarrow> py_error + polygon list" where
  "identify_rooms lib img ext min_room_area max_room_area =
     (case identify_rooms_labelled lib img ext min_room_area max_room_area of
        Inl e \<Rightarrow> Inl e
      | Inr rs \<Rightarrow> Inr (map snd rs))"

section \<open>A small raster example\<close>

text \<open>
  A 7x7 wall image with a closed ring of wall pixels, the labelling of its floor mask (the
  outer region 1 touches the border, the inner 3x3 region 2 does not), the region
  properties and the contour of the inner region, and library functions that answer for
  this image. The example is used to evaluate the detector on a concrete input.
\<close>

definition demo_img :: image where
  "demo_img =
     [[0, 0, 0, 0, 0, 0, 0],
      [0, 255, 255, 255, 255, 255, 0],
      [0, 255, 0, 0, 0, 255, 0],
      [0, 255, 0, 0, 0, 255, 0],
      [0, 255, 0, 0, 0, 255, 0],
      [0, 255, 255, 255, 255, 255, 0],
      [0, 0, 0, 0, 0, 0, 0]]"

definition demo_lab :: image where
  "demo_lab =
     [[1, 1, 1, 1, 1, 1, 1],
      [1, 0, 0, 0, 0, 0, 1],
      [1, 0, 2, 2, 2, 0, 1],
      [1, 0, 2, 2, 2, 0, 1],
      [1, 0, 2, 2, 2, 0, 1],
      [1, 0, 0, 0, 0, 0, 1],
      [1, 1, 1, 1, 1, 1, 1]]"

definition demo_contour :: "(real \<times> real) list" where
  "demo_contour =
     [(3/2, 2), (3/2, 3), (3/2, 4), (2, 9/2), (3, 9/2), (4, 9/2), (9/2, 4), (9/2, 3),
      (9/2, 2), (4, 3/2), (3, 3/2), (2, 3/2), (3/2, 2)]"

definition demo_outer :: regionprop where
  "demo_outer = \<lparr>label = 1, area = 24, perimeter = 40\<rparr>"

definition demo_inner :: regionprop where
  "demo_inner = \<lparr>label = 2, area = 9, perimeter = 8\<rparr>"

definition demo_lib :: vision where
  "demo_lib =
     \<lparr>cv2_line = (\<lambda>im p q colour thickness. im),
      morph_close = (\<lambda>im. im),
      measure_label = (\<lambda>im. demo_lab),
      regionprops = (\<lambda>im. [demo_outer, demo_inner]),
      find_contours = (\<lambda>im l. if l = 2 then [demo_contour] else []),
      approxPolyDP = (\<lambda>pts eps closed. pts)\<rparr>"

definition demo_ext :: extents where
  "demo_ext = (Fin 0, Fin 0, Fin 6, Fin 6)"

definition demo_poly :: polygon where
  "demo_poly = map (\<lambda>(y, x). (Fin x, Fin y)) demo_contour"

definition demo_pixel :: regionprop where
  "demo_pixel = \<lparr>label = 3, area = 1, perimeter = 0\<rparr>"

section \<open>Layers and entities of a drawing\<close>

text \<open>
  One value of the dictionary built by \<open>analyze_layers\<close>: the histogram of entity types
  (a dictionary from the DXF type name to a count) and the layer attributes. The
  dictionary of all layers keeps its insertion order, so it is an association list (with
  distinct keys).
\<close>

record layer_info =
  entity_types :: "ustr \<rightharpoonup> nat"
  color :: int
  is_on :: bool
  is_frozen :: bool
  linetype :: ustr

type_synonym layers_info = "(ustr \<times> layer_info) list"

text \<open>\<^verbatim>\<open>entity_types.get(k, 0)\<close>\<close>

definition get0 :: "(ustr \<rightharpoonup> nat) \<Rightarrow> ustr \<Rightarrow> nat" where
  "get0 d k = (case d k of None \<Rightarrow> 0 | Some c \<Rightarrow> c)"

text \<open>
  The entities of the model space, as the pipeline sees them through ezdxf: every entity
  has a layer; a LINE has its two end points; an LWPOLYLINE has \<^verbatim>\<open>is_closed\<close> and
  \<^verbatim>\<open>get_points()\<close>; a POLYLINE has \<^verbatim>\<open>is_closed\<close> and \<^verbatim>\<open>vertices\<close> with their locations; a
  HATCH has boundary paths, of which the polyline paths carry vertices; a CIRCLE has a
  centre and a radius. \<open>OTHER\<close> stands for every entity type from which the pipeline reads
  no geometry (text, inserts, splines; also arcs and ellipses, whose \<^verbatim>\<open>vertices\<close> method
  cannot be called without arguments, which the pipeline catches). Coordinates stored in
  a drawing are finite.
\<close>

type_synonym xy = "real \<times> real"

datatype hatch_path = PolylinePath "xy list" | EdgePath

datatype entity =
    LINE ustr xy xy
  | LWPOLYLINE ustr bool "xy list"
  | POLYLINE ustr bool "xy list"
  | HATCH ustr "hatch_path list"
  | CIRCLE ustr xy real
  | OTHER ustr

fun layer_of :: "entity \<Rightarrow> ustr" where
  "layer_of (LINE l a b) = l"
| "layer_of (LWPOLYLINE l c ps) = l"
| "layer_of (POLYLINE l c ps) = l"
| "layer_of (HATCH l paths) = l"
| "layer_of (CIRCLE l c r) = l"
| "layer_of (OTHER l) = l"

definition fin_pt :: "xy \<Rightarrow> pt" where
  "fin_pt p = (Fin (fst p), Fin (snd p))"

section \<open>Extents\<close>

text \<open>
  The running bounding box \<open>(min_x, min_y, max_x, max_y)\<close>, started at
  \<open>(inf, inf, -inf, -inf)\<close> and updated point by point.
\<close>

definition empty_box :: extents where
  "empty_box = (PosInf, PosInf, NegInf, NegInf)"

definition grow :: "extents \<Rightarrow> pt \<Rightarrow> extents" where
  "grow box p =
     (case box of (min_x, min_y, max_x, max_y) \<Rightarrow>
        (py_min min_x (fst p), py_min min_y (snd p), py_max max_x (fst p), py_max max_y (snd p)))"

text \<open>
  \<open>get_drawing_extents\<close>: the loop state is the box and \<open>entity_count\<close>. An LWPOLYLINE has
  \<^verbatim>\<open>get_points\<close>, a CIRCLE is handled by its own branch, a POLYLINE has \<^verbatim>\<open>vertices\<close>;
  a LINE and a HATCH have none of these attributes and leave the state unchanged.
\<close>

fun extents_step :: "extents \<times> nat \<Rightarrow> entity \<Rightarrow> extents \<times> nat" where
  "extents_step (box, n) (LWPOLYLINE l c ps) = (foldl grow box (map fin_pt ps), n + length ps)"
| "extents_step (box, n) (CIRCLE l c r) =
     (case box of (min_x, min_y, max_x, max_y) \<Rightarrow>
        ((py_min min_x (Fin (fst c - r)), py_min min_y (Fin (snd c - r)),
          py_max max_x (Fin (fst c + r)), py_max max_y (Fin (snd c + r))), n + 1))"
| "extents_step (box, n) (POLYLINE l c ps) = (foldl grow box (map fin_pt ps), n + length ps)"
| "extents_step (box, n) e = (box, n)"

definition get_drawing_extents :: "entity list \<Rightarrow> extents option" where
  "get_drawing_extents modelspace =
     (case foldl extents_step (empty_box, 0) modelspace of
        (box, entity_count) \<Rightarrow> if entity_count = 0 then None else Some box)"

text \<open>The fixed fallback \<^verbatim>\<open>(0, 0, 1000, 1000)\<close>.\<close>

definition default_extents :: extents where
  "default_extents = (Fin 0, Fin 0, Fin 1000, Fin 1000)"

text \<open>
  Truth value of an extents variable in a condition: \<^verbatim>\<open>None\<close> is false; a tuple of four
  numbers is true whatever the numbers are, since in Python only the empty tuple is false.
\<close>

definition tuple_truthy :: "extents \<Rightarrow> bool" where
  "tuple_truthy e = True"

definition opt_truthy :: "extents option \<Rightarrow> bool" where
  "opt_truthy v = (case v of None \<Rightarrow> False | Some e \<Rightarrow> tuple_truthy e)"

section \<open>Rooms drawn on room layers\<close>

text \<open>\<open>is_valid_room\<close>: at least three vertices and a shoelace area of at least \<open>min_area\<close>.\<close>

definition shoelace_twice :: "xy list \<Rightarrow> real" where
  "shoelace_twice vertices =
     foldl (\<lambda>area i.
         let j = (i + 1) mod length vertices in
         area + fst (vertices ! i) * snd (vertices ! j) - fst (vertices ! j) * snd (vertices ! i))
       0 [0..<length vertices]"

definition is_valid_room :: "xy list \<Rightarrow> real \<Rightarrow> bool" where
  "is_valid_room vertices min_area =
     (if vertices = [] \<or> length vertices < 3 then False
      else min_area \<le> \<bar>shoelace_twice vertices\<bar> / 2)"

text \<open>
  The room layers as \<open>extract_walls_and_rooms\<close> recomputes them: by name, or by the
  entity histogram (polylines or hatches on a layer that is not frozen, with few plain
  lines).
\<close>

definition room_layer_keywords :: "ustr list" where
  "room_layer_keywords =
     [asc ''room'', asc ''room'', [25151, 38388], [25151], asc ''space'', asc ''space'',
      [31354, 38388], asc ''area'', asc ''area'', [21306, 22495], asc ''arch-room'',
      asc ''a-room'', asc ''a-zone'']"

definition histogram_says_room :: "layer_info \<Rightarrow> bool" where
  "histogram_says_room info =
     (let entity_types = entity_types info in
      if (entity_types (asc ''LWPOLYLINE'') \<noteq> None \<or> entity_types (asc ''POLYLINE'') \<noteq> None \<or>
          entity_types (asc ''HATCH'') \<noteq> None) \<and> \<not> is_frozen info
      then
        (let line_count = get0 entity_types (asc ''LINE'');
             polyline_count = get0 entity_types (asc ''LWPOLYLINE'') +
                              get0 entity_types (asc ''POLYLINE'');
             hatch_count = get0 entity_types (asc ''HATCH'')
         in (5 < polyline_count \<or> 0 < hatch_count) \<and>
            (line_count = 0 \<or> 1 / 2 < real polyline_count / real line_count))
      else False)"

definition room_layers_of :: "(ustr \<Rightarrow> ustr) \<Rightarrow> layers_info \<Rightarrow> ustr list" where
  "room_layers_of lower layers =
     map fst (filter (\<lambda>(layer_name, info).
        (\<exists>keyword \<in> set room_layer_keywords. contains keyword (lower layer_name)) \<or>
        histogram_says_room info) layers)"

text \<open>
  The rooms that one entity of a room layer contributes: a closed polyline with at least
  three points that is a valid room, and every polyline path of a hatch with at least
  three vertices that is a valid room.
\<close>

fun hatch_rooms :: "real \<Rightarrow> hatch_path list \<Rightarrow> xy list list" where
  "hatch_rooms min_room_area [] = []"
| "hatch_rooms min_room_area (PolylinePath vs # paths) =
     (if 3 \<le> length vs \<and> is_valid_room vs min_room_area
      then vs # hatch_rooms min_room_area paths
      else hatch_rooms min_room_area paths)"
| "hatch_rooms min_room_area (EdgePath # paths) = hatch_rooms min_room_area paths"

fun entity_rooms :: "ustr list \<Rightarrow> real \<Rightarrow> entity \<Rightarrow> xy list list" where
  "entity_rooms room_layers min_room_area (LWPOLYLINE l is_closed_flag points) =
     (if l \<in> set room_layers \<and> is_closed_flag \<and> 3 \<le> length points \<and> is_valid_room points min_room_area
      then [points] else [])"
| "entity_rooms room_layers min_room_area (POLYLINE l is_closed_flag points) =
     (if l \<in> set room_layers \<and> is_closed_flag \<and> 3 \<le> length points \<and> is_valid_room points min_room_area
      then [points] else [])"
| "entity_rooms room_layers min_room_area (HATCH l paths) =
     (if l \<in> set room_layers then hatch_rooms min_room_area paths else [])"
| "entity_rooms room_layers min_room_area e = []"

definition rooms_from_layers :: "ustr list \<Rightarrow> real \<Rightarrow> entity list \<Rightarrow> polygon list" where
  "rooms_from_layers room_layers min_room_area msp =
     (if room_layers = [] then []
      else map (map fin_pt) (concat (map (entity_rooms room_layers min_room_area) msp)))"

definition extents_from_rooms :: "polygon list \<Rightarrow> extents option" where
  "extents_from_rooms rooms =
     (if rooms = [] then None
      else
        (case foldl grow empty_box (concat rooms) of (min_x, min_y, max_x, max_y) \<Rightarrow>
           if pf_lt min_x PosInf \<and> pf_lt min_y PosInf \<and> pf_lt NegInf max_x \<and> pf_lt NegInf max_y
           then Some (min_x, min_y, max_x, max_y) else None))"

section \<open>Wall lines and the rasterizer\<close>

definition furniture_equipment_keywords :: "ustr list" where
  "furniture_equipment_keywords =
     [[23478, 20855], asc ''FURN'', asc ''furniture'', [35774, 22791], asc ''EQUIP'',
      asc ''equipment'', [26631, 27880], asc ''TEXT'', asc ''text'', asc ''ANNO'',
      asc ''annotation'', [36724, 32593], asc ''GRID'', asc ''grid'', [28783, 20855],
      asc ''LIGHT'', [21355, 29983], asc ''TOILET'', asc ''PLUMB'', [31649, 36947],
      asc ''PIPE'', [30005, 27668], asc ''ELEC'']"

definition exclude_layers_of :: "layers_info \<Rightarrow> ustr set" where
  "exclude_layers_of layers =
     {layer_name \<in> set (map fst layers).
        \<exists>keyword \<in> set furniture_equipment_keywords. contains keyword layer_name}"

text \<open>The segments between consecutive points, and the closing segment of a closed polyline.\<close>

definition polyline_segments :: "bool \<Rightarrow> xy list \<Rightarrow> wall" where
  "polyline_segments is_closed_flag points =
     map (\<lambda>i. (fin_pt (points ! i), fin_pt (points ! (i + 1)))) [0..<length points - 1] @
     (if is_closed_flag then [(fin_pt (last points), fin_pt (hd points))] else [])"

fun entity_walls :: "ustr set \<Rightarrow> entity \<Rightarrow> wall list" where
  "entity_walls exclude_layers (LINE l a b) =
     (if l \<in> exclude_layers then [] else [[(fin_pt a, fin_pt b)]])"
| "entity_walls exclude_layers (LWPOLYLINE l is_closed_flag points) =
     (if l \<in> exclude_layers then []
      else if 2 \<le> length points then [polyline_segments is_closed_flag points] else [])"
| "entity_walls exclude_layers (POLYLINE l is_closed_flag points) =
     (if l \<in> exclude_layers then []
      else if 2 \<le> length points then [polyline_segments is_closed_flag points] else [])"
| "entity_walls exclude_layers e = []"

definition collect_walls :: "layers_info \<Rightarrow> entity list \<Rightarrow> wall list" where
  "collect_walls layers msp = concat (map (entity_walls (exclude_layers_of layers)) msp)"

text \<open>
  \<open>convert_walls_to_image\<close>. The extents are the bounding box of all segment end points.
  Each end point is mapped to a pixel by
  \<^verbatim>\<open>int((c - min) / (max - min + 1e-10) * (img_size - 1))\<close> and the segment is drawn with
  \<^verbatim>\<open>cv2.line\<close> (colour 255).
\<close>

definition walls_extents :: "wall list \<Rightarrow> extents" where
  "walls_extents walls =
     foldl (\<lambda>box seg. grow (grow box (fst seg)) (snd seg)) empty_box (concat walls)"

definition to_pixel :: "pyfloat \<Rightarrow> pyfloat \<Rightarrow> pyfloat \<Rightarrow> nat \<Rightarrow> py_error + int" where
  "to_pixel c lo hi img_size =
     (case py_truediv (pf_sub c lo) (pf_add (pf_sub hi lo) (Fin (1 / 10 ^ 10))) of
        Inl e \<Rightarrow> Inl e
      | Inr q \<Rightarrow> py_int (pf_mul q (Fin (real_of_int (int img_size - 1)))))"

definition draw_segment ::
  "vision \<Rightarrow> extents \<Rightarrow> nat \<Rightarrow> nat \<Rightarrow> image \<Rightarrow> segment \<Rightarrow> py_error + image" where
  "draw_segment lib ext img_size line_thickness img seg =
     (case ext of (min_x, min_y, max_x, max_y) \<Rightarrow>
      case seg of (p_start, p_end) \<Rightarrow>
       (case to_pixel (fst p_start) min_x max_x img_size of Inl e \<Rightarrow> Inl e | Inr start_x \<Rightarrow>
        case to_pixel (snd p_start) min_y max_y img_size of Inl e \<Rightarrow> Inl e | Inr start_y \<Rightarrow>
        case to_pixel (fst p_end) min_x max_x img_size of Inl e \<Rightarrow> Inl e | Inr end_x \<Rightarrow>
        case to_pixel (snd p_end) min_y max_y img_size of Inl e \<Rightarrow> Inl e | Inr end_y \<Rightarrow>
          Inr (cv2_line lib img (start_x, start_y) (end_x, end_y) 255 line_thickness)))"

fun draw_segments ::
  "vision \<Rightarrow> extents \<Rightarrow> nat \<Rightarrow> nat \<Rightarrow> image \<Rightarrow> segment list \<Rightarrow> py_error + image" where
  "draw_segments lib ext img_size line_thickness img [] = Inr img"
| "draw_segments lib ext img_size line_thickness img (seg # segs) =
     (case draw_segment lib ext img_size line_thickness img seg of
        Inl e \<Rightarrow> Inl e
      | Inr img' \<Rightarrow> draw_segments lib ext img_size line_thickness img' segs)"

definition zeros :: "nat \<Rightarrow> image" where
  "zeros img_size = replicate img_size (replicate img_size 0)"

definition convert_walls_to_image ::
  "vision \<Rightarrow> wall list \<Rightarrow> nat \<Rightarrow> py_error + image \<times> extents" where
  "convert_walls_to_image lib walls img_size =
     (let ext = walls_extents walls in
      case draw_segments lib ext img_size 5 (zeros img_size) (concat walls) of
        Inl e \<Rightarrow> Inl e
      | Inr img \<Rightarrow> Inr (img, ext))"

section \<open>The reconciler and the pipeline\<close>

text \<open>
  Step 5 of \<open>extract_walls_and_rooms\<close>: the rooms of the room layers first; the rooms
  detected on the raster are appended when fewer than three rooms are there so far.
\<close>

definition reconcile_rooms :: "polygon list \<Rightarrow> polygon list \<Rightarrow> polygon list" where
  "reconcile_rooms from_layers from_walls =
     (let all_rooms = (if from_layers \<noteq> [] then from_layers else []);
          all_rooms = (if length all_rooms < 3 \<and> from_walls \<noteq> []
                       then all_rooms @ from_walls else all_rooms)
      in all_rooms)"

text \<open>
  The choice of extents at the end of \<open>extract_walls_and_rooms\<close>. \<open>from_rooms\<close> is
  \<^verbatim>\<open>None\<close> or a tuple; \<open>from_walls\<close> is always the tuple that \<open>convert_walls_to_image\<close>
  returned.
\<close>

definition choose_extents :: "extents option \<Rightarrow> extents \<Rightarrow> extents" where
  "choose_extents from_rooms from_walls =
     (if opt_truthy from_rooms then the from_rooms
      else if tuple_truthy from_walls then from_walls
      else default_extents)"

text \<open>
  \<open>extract_walls_and_rooms\<close>. \<open>layers\<close> is the dictionary that \<open>analyze_layers(doc)\<close>
  returns and \<open>msp\<close> the entities of the model space of \<open>doc\<close>, in their order. The
  function also calls \<open>identify_wall_layers\<close>, whose result it does not use. The raster
  detector is called with \<^verbatim>\<open>max_room_area=None\<close>.
\<close>

definition extract_walls_and_rooms ::
  "vision \<Rightarrow> (ustr \<Rightarrow> ustr) \<Rightarrow> layers_info \<Rightarrow> entity list \<Rightarrow> real \<Rightarrow> nat \<Rightarrow>
   py_error + wall list \<times> polygon list \<times> extents" where
  "extract_walls_and_rooms lib lower layers msp min_room_area img_size =
     (let room_layers = room_layers_of lower layers;
          from_layers = rooms_from_layers room_layers min_room_area msp;
          ext_rooms = extents_from_rooms from_layers;
          walls = collect_walls layers msp
      in case convert_walls_to_image lib walls img_size of
           Inl e \<Rightarrow> Inl e
         | Inr (walls_img, ext_walls) \<Rightarrow>
             (case identify_rooms lib walls_img ext_walls min_room_area None of
                Inl e \<Rightarrow> Inl e
              | Inr from_walls \<Rightarrow>
                  Inr (walls, reconcile_rooms from_layers from_walls,
                       choose_extents ext_rooms ext_walls)))"

text \<open>
  \<open>extract_rooms_from_dwg\<close>, from the document handed to \<open>extract_walls_and_rooms\<close> on:
  the rooms, and the final extents chosen between the extents of the drawing entities and
  the extents that \<open>extract_walls_and_rooms\<close> returned. Format conversion, preprocessing
  and the writing of previews and DXF files are outside the model.
\<close>

definition extract_rooms_from_dwg ::
  "vision \<Rightarrow> (ustr \<Rightarrow> ustr) \<Rightarrow> layers_info \<Rightarrow> entity list \<Rightarrow> real \<Rightarrow> nat \<Rightarrow>
   py_error + polygon list \<times> extents" where
  "extract_rooms_from_dwg lib lower layers msp min_room_area img_size =
     (case extract_walls_and_rooms lib lower layers msp min_room_area img_size of
        Inl e \<Rightarrow> Inl e
      | Inr (walls, rooms, extents_from_walls) \<Rightarrow>
          (let extents_from_drawing = get_drawing_extents msp;
               final_extents =
                 (if opt_truthy extents_from_drawing then the extents_from_drawing
                  else if tuple_truthy extents_from_walls then extents_from_walls
                  else default_extents)
           in Inr (rooms, final_extents)))"

section \<open>Small example documents\<close>

text \<open>
  A 10x10 square, and the histogram records of a layer holding one hatch, one closed
  polyline, wall lines, and nothing.
\<close>

definition square10 :: "xy list" where
  "square10 = [(0, 0), (10, 0), (10, 10), (0, 10)]"

definition hatch_info :: layer_info where
  "hatch_info = \<lparr>entity_types = [asc ''HATCH'' \<mapsto> 1], color = 7, is_on = True,
     is_frozen = False, linetype = asc ''CONTINUOUS''\<rparr>"

definition polyline_info :: layer_info where
  "polyline_info = \<lparr>entity_types = [asc ''LWPOLYLINE'' \<mapsto> 1], color = 7, is_on = True,
     is_frozen = False, linetype = asc ''CONTINUOUS''\<rparr>"

definition line_info :: "nat \<Rightarrow> layer_info" where
  "line_info n = \<lparr>entity_types = [asc ''LINE'' \<mapsto> n], color = 7, is_on = True,
     is_frozen = False, linetype = asc ''CONTINUOUS''\<rparr>"

definition unused_info :: layer_info where
  "unused_info = \<lparr>entity_types = Map.empty, color = 7, is_on = True,
     is_frozen = False, linetype = asc ''CONTINUOUS''\<rparr>"

text \<open>
  A document whose layer 0 holds one hatch with the square as its boundary and whose layer
  WALL holds one line from (0, 0) to (20, 20); on a 7x7 raster the line leaves two floor
  regions, both on the border.
\<close>

definition hatch_layers :: layers_info where
  "hatch_layers = [(asc ''0'', hatch_info), (asc ''WALL'', line_info 1)]"

definition hatch_msp :: "entity list" where
  "hatch_msp = [HATCH (asc ''0'') [PolylinePath square10], LINE (asc ''WALL'') (0, 0) (20, 20)]"

definition diag_lab :: image where
  "diag_lab =
     [[0, 0, 1, 1, 1, 1, 1],
      [0, 0, 0, 1, 1, 1, 1],
      [2, 0, 0, 0, 1, 1, 1],
      [2, 2, 0, 0, 0, 1, 1],
      [2, 2, 2, 0, 0, 0, 1],
      [2, 2, 2, 2, 0, 0, 0],
      [2, 2, 2, 2, 2, 0, 0]]"

definition diag_upper :: regionprop where
  "diag_upper = \<lparr>label = 1, area = 15, perimeter = 12\<rparr>"

definition diag_lower :: regionprop where
  "diag_lower = \<lparr>label = 2, area = 15, perimeter = 12\<rparr>"

definition diag_lib :: vision where
  "diag_lib =
     \<lparr>cv2_line = (\<lambda>im p q colour thickness. im),
      morph_close = (\<lambda>im. im),
      measure_label = (\<lambda>im. diag_lab),
      regionprops = (\<lambda>im. [diag_upper, diag_lower]),
      find_contours = (\<lambda>im l. []),
      approxPolyDP = (\<lambda>pts eps closed_flag. pts)\<rparr>"

text \<open>The same document without the hatch: only the wall line.\<close>

definition line_layers :: layers_info where
  "line_layers = [(asc ''0'', unused_info), (asc ''WALL'', line_info 1)]"

definition line_msp :: "entity list" where
  "line_msp = [LINE (asc ''WALL'') (0, 0) (20, 20)]"

text \<open>
  A document with no entities: the layer table holds the default layer only. The floor
  mask of the blank raster is one region that covers the whole image.
\<close>

definition empty_layers :: layers_info where
  "empty_layers = [(asc ''0'', unused_info)]"

definition blank_lib :: vision where
  "blank_lib =
     \<lparr>cv2_line = (\<lambda>im p q colour thickness. im),
      morph_close = (\<lambda>im. im),
      measure_label = (\<lambda>im. im),
      regionprops = (\<lambda>im. [\<lparr>label = 1, area = 49, perimeter = 24\<rparr>]),
      find_contours = (\<lambda>im l. []),
      approxPolyDP = (\<lambda>pts eps closed_flag. pts)\<rparr>"

text \<open>
  A document with a closed polyline (the square) on the layer ROOM and, on the layer WALL,
  four wall lines around (2, 2) .. (8, 8) and a circle of radius 7 about (5, 5); the raster
  example above stands for its wall image.
\<close>

definition ring_info :: layer_info where
  "ring_info = \<lparr>entity_types = [asc ''LINE'' \<mapsto> 4, asc ''CIRCLE'' \<mapsto> 1], color = 7,
     is_on = True, is_frozen = False, linetype = asc ''CONTINUOUS''\<rparr>"

definition room_layers_doc :: layers_info where
  "room_layers_doc = [(asc ''ROOM'', polyline_info), (asc ''WALL'', ring_info)]"

definition room_msp :: "entity list" where
  "room_msp =
     [LWPOLYLINE (asc ''ROOM'') True square10,
      LINE (asc ''WALL'') (2, 2) (8, 2), LINE (asc ''WALL'') (8, 2) (8, 8),
      LINE (asc ''WALL'') (8, 8) (2, 8), LINE (asc ''WALL'') (2, 8) (2, 2),
      CIRCLE (asc ''WALL'') (5, 5) 7]"

definition box12 :: extents where
  "box12 = (Fin (- 2), Fin (- 2), Fin 12, Fin 12)"

definition box10 :: extents where
  "box10 = (Fin 0, Fin 0, Fin 10, Fin 10)"

definition box20 :: extents where
  "box20 = (Fin 0, Fin 0, Fin 20, Fin 20)"

text \<open>Five rooms from the layers and ten rooms from the raster.\<close>

definition triangle :: polygon where
  "triangle = [(Fin 0, Fin 0), (Fin 1, Fin 0), (Fin 0, Fin 1)]"

definition five_rooms :: "polygon list" where
  "five_rooms = replicate 5 (map fin_pt square10)"

definition ten_rooms :: "polygon list" where
  "ten_rooms = replicate 10 triangle"

section \<open>The layer classifier\<close>

text \<open>
  The keyword tables of \<open>identify_wall_layers\<close>. Keywords with characters outside ASCII are
  given by their code points.
\<close>

definition wall_keywords :: "ustr list" where
  "wall_keywords =
     [asc ''WALL'', asc ''wall'', [22681], [22681, 20307], asc ''A-WALL'', asc ''S-WALL'',
      asc ''WALX'', asc ''ARCH-WALL'', [22681, 32447], asc ''QA'', asc ''QZ'', asc ''MQ'',
      asc ''QIANG'', asc ''BZ'', [38548, 22681], [30742, 22681], [26609],
      [24314, 45, 22681], [32467, 26500, 45, 22681], [24314, 31569, 45, 22681],
      [21098, 21147, 22681], [25215, 37325, 22681], [38548, 22681, 45, 30742, 22681],
      [38548, 22681, 8212, 30742, 22681], [73, 8212, 38548, 22681]]"

definition door_window_keywords :: "ustr list" where
  "door_window_keywords =
     [asc ''DOOR'', asc ''door'', [38376], asc ''A-DOOR'', asc ''WINDOW'', asc ''window'',
      [31383], asc ''A-WINDOW'', asc ''DOOR_WINDOW'', asc ''OPENING'', [24314, 45, 31383],
      [24314, 45, 38376], [73, 8212, 24179, 38754, 8212, 38376],
      [73, 45, 24179, 38754, 45, 31383], [38376, 31383]]"

definition room_keywords :: "ustr list" where
  "room_keywords =
     [asc ''ROOM'', asc ''Room'', asc ''room'', [25151, 38388], [25151], asc ''SPACE'',
      asc ''Space'', asc ''space'', [31354, 38388], asc ''AREA'', asc ''Area'',
      asc ''area'', [21306, 22495], asc ''ARCH-ROOM'', asc ''A-ROOM'', asc ''A-ZONE'']"

definition text_keywords :: "ustr list" where
  "text_keywords =
     [asc ''TEXT'', asc ''DIM'', asc ''TITLE'', [26631, 27880], [25991, 23383],
      [26631, 39064], [32534, 21495], [22270, 26694], [22270, 20363], asc ''ANNOTATION'',
      asc ''LABEL'', asc ''NUMBER'', asc ''NOTE'', [22791, 27880], asc ''MARK'',
      [31526, 21495], asc ''SYMBOL'']"

definition exclude_keywords :: "ustr list" where
  "exclude_keywords =
     [asc ''FURN'', asc ''furniture'', [23478, 20855], asc ''DESK'', asc ''TABLE'',
      asc ''CHAIR'', asc ''BED'', asc ''SOFA'', [26700], [26885], [24202], [27801, 21457],
      [26588], [27249], [31227, 21160, 23478, 20855], [23460, 45, 23478, 20855],
      asc ''MOVABLE'', asc ''EQUIP'', asc ''EQUIPMENT'', [35774, 22791], [27905, 20855],
      [21355, 29983, 38388], [35013, 39280], [28783], [28783, 20855], [30005, 27668],
      asc ''ELEC'', [26262, 36890], asc ''HVAC'', [32473, 25490, 27700], asc ''PLUMBING'',
      [31354, 35843], asc ''AC'', asc ''AIR'', [22320, 22378], [36367, 27493],
      [26639, 26438], [20998, 38548], [22635, 20805], [36718, 24275, 32447],
      [38754, 23618, 32447], [24179, 39030], asc ''CEILING'', [22825, 33457],
      asc ''FLOOR'', [22320, 38754], asc ''STAIR'', [27004, 26799], asc ''RAILING'',
      [25206, 25163], asc ''DECORATION'', [35013, 39280], asc ''FINISHING'',
      [39280, 38754], asc ''PATTERN'', [22270, 26696], asc ''GRID'', [36724, 32593],
      asc ''COLUMN'', [26609], asc ''BEAM'', [26753], asc ''LANDSCAPE'', [26223, 35266],
      asc ''VEGETATION'', [26893, 34987], asc ''SITE'', [22330, 22320], asc ''LINE'',
      [32447, 26465], asc ''LAYOUT'', [24067, 23616]]"

text \<open>The substrings tested on their own: U+9694 U+5899 and U+7816 U+5899 (two kinds of
  wall), U+6587 U+5B57 and U+7F16 U+53F7 (text and numbering), U+5899 (wall), and the list
  of the special-case test of step 2.\<close>

definition partition_wall :: ustr where
  "partition_wall = [38548, 22681]"

definition brick_wall :: ustr where
  "brick_wall = [30742, 22681]"

definition wenzi :: ustr where
  "wenzi = [25991, 23383]"

definition bianhao :: ustr where
  "bianhao = [32534, 21495]"

definition special_keywords :: "ustr \<Rightarrow> ustr list" where
  "special_keywords layer_name =
     [[28783], [27905, 20855], [26639, 26438], [36367, 27493], [26262, 36890],
      (if \<not> contains [22681] layer_name then [38548, 26029] else []), [23478, 20855]]"

text \<open>The helper functions nested in \<open>identify_wall_layers\<close>.\<close>

definition check_keywords :: "(ustr \<Rightarrow> ustr) \<Rightarrow> ustr \<Rightarrow> ustr list \<Rightarrow> bool" where
  "check_keywords lower name keywords =
     (\<exists>keyword \<in> set keywords. contains (lower keyword) (lower name))"

definition is_text_layer :: "(ustr \<Rightarrow> ustr) \<Rightarrow> ustr \<Rightarrow> bool" where
  "is_text_layer lower name =
     (check_keywords lower name text_keywords \<or> contains wenzi name \<or> contains bianhao name)"

definition is_room_layer :: "(ustr \<Rightarrow> ustr) \<Rightarrow> ustr \<Rightarrow> layer_info \<Rightarrow> bool" where
  "is_room_layer lower name info =
     (if check_keywords lower name room_keywords then True else histogram_says_room info)"

text \<open>The five lists that the function fills.\<close>

record layer_classes =
  wall_layers :: "ustr list"
  door_window_layers :: "ustr list"
  room_layers :: "ustr list"
  excluded_layers :: "ustr list"
  text_layers :: "ustr list"

definition no_classes :: layer_classes where
  "no_classes = \<lparr>wall_layers = [], door_window_layers = [], room_layers = [],
     excluded_layers = [], text_layers = []\<rparr>"

text \<open>Step 1, the body of the first loop over the layers: text layers and room layers.\<close>

definition step1 :: "(ustr \<Rightarrow> ustr) \<Rightarrow> layer_classes \<Rightarrow> ustr \<times> layer_info \<Rightarrow> layer_classes" where
  "step1 lower st entry =
     (case entry of (layer_name, info) \<Rightarrow>
        if is_text_layer lower layer_name
        then st\<lparr>text_layers := text_layers st @ [layer_name],
                excluded_layers := excluded_layers st @ [layer_name]\<rparr>
        else if is_room_layer lower layer_name info
        then st\<lparr>room_layers := room_layers st @ [layer_name]\<rparr>
        else st)"

text \<open>
  Step 2, the body of the second loop: wall layers, door and window layers, excluded
  layers, and for a layer that no keyword decides the test on its entity histogram.
\<close>

definition looks_like_walls :: "layer_info \<Rightarrow> bool" where
  "looks_like_walls info =
     (let entity_types = entity_types info;
          line_count = get0 entity_types (asc ''LINE'') + get0 entity_types (asc ''LWPOLYLINE'') +
                       get0 entity_types (asc ''POLYLINE'');
          text_count = get0 entity_types (asc ''TEXT'') + get0 entity_types (asc ''MTEXT'')
      in 20 < line_count \<and> (text_count = 0 \<or> 10 < real line_count / real text_count) \<and>
         is_on info \<and> \<not> is_frozen info)"

definition step2 :: "(ustr \<Rightarrow> ustr) \<Rightarrow> layer_classes \<Rightarrow> ustr \<times> layer_info \<Rightarrow> layer_classes" where
  "step2 lower st entry =
     (case entry of (layer_name, info) \<Rightarrow>
        if layer_name \<in> set (text_layers st) then st
        else if contains partition_wall layer_name \<or> contains brick_wall layer_name \<or>
                check_keywords lower layer_name wall_keywords
        then st\<lparr>wall_layers := wall_layers st @ [layer_name]\<rparr>
        else if check_keywords lower layer_name door_window_keywords \<and>
                \<not> is_text_layer lower layer_name
        then st\<lparr>door_window_layers := door_window_layers st @ [layer_name]\<rparr>
        else if check_keywords lower layer_name exclude_keywords \<and>
                \<not> check_keywords lower layer_name wall_keywords
        then st\<lparr>excluded_layers := excluded_layers st @ [layer_name]\<rparr>
        else if \<exists>keyword \<in> set (special_keywords layer_name). contains keyword layer_name
        then st\<lparr>excluded_layers := excluded_layers st @ [layer_name]\<rparr>
        else if looks_like_walls info
        then st\<lparr>wall_layers := wall_layers st @ [layer_name]\<rparr>
        else st\<lparr>excluded_layers := excluded_layers st @ [layer_name]\<rparr>)"

text \<open>
  Step 3, over a copy of the excluded list: a layer with one of the two wall substrings
  in its name is taken out of the excluded list and put back among the wall layers.
  \<^verbatim>\<open>list.remove\<close> deletes the first occurrence.
\<close>

definition step3 :: "layer_classes \<Rightarrow> ustr \<Rightarrow> layer_classes" where
  "step3 st layer_name =
     (if contains partition_wall layer_name \<or> contains brick_wall layer_name
      then
        (let st = st\<lparr>excluded_layers := remove1 layer_name (excluded_layers st)\<rparr>
         in if layer_name \<notin> set (wall_layers st)
            then st\<lparr>wall_layers := wall_layers st @ [layer_name]\<rparr> else st)
      else st)"

text \<open>Step 4, over copies of the wall list and of the door and window list.\<close>

definition step4_wall :: "(ustr \<Rightarrow> ustr) \<Rightarrow> layer_classes \<Rightarrow> ustr \<Rightarrow> layer_classes" where
  "step4_wall lower st layer_name =
     (if is_text_layer lower layer_name \<or>
         (layer_name \<in> set (excluded_layers st) \<and> \<not> contains partition_wall layer_name \<and>
          \<not> contains brick_wall layer_name)
      then
        (let st = st\<lparr>wall_layers := remove1 layer_name (wall_layers st)\<rparr>
         in if layer_name \<notin> set (excluded_layers st)
            then st\<lparr>excluded_layers := excluded_layers st @ [layer_name]\<rparr> else st)
      else st)"

definition step4_door :: "(ustr \<Rightarrow> ustr) \<Rightarrow> layer_classes \<Rightarrow> ustr \<Rightarrow> layer_classes" where
  "step4_door lower st layer_name =
     (if layer_name \<in> set (excluded_layers st)
      then st\<lparr>door_window_layers := remove1 layer_name (door_window_layers st)\<rparr>
      else if is_text_layer lower layer_name
      then
        (let st = st\<lparr>door_window_layers := remove1 layer_name (door_window_layers st)\<rparr>
         in if layer_name \<notin> set (excluded_layers st)
            then st\<lparr>excluded_layers := excluded_layers st @ [layer_name]\<rparr> else st)
      else st)"

text \<open>The four steps in sequence: the lists as they are when the function logs them.\<close>

definition classify_layers :: "(ustr \<Rightarrow> ustr) \<Rightarrow> layers_info \<Rightarrow> layer_classes" where
  "classify_layers lower layers =
     (let st = foldl (step1 lower) no_classes layers;
          st = foldl (step2 lower) st layers;
          st = foldl step3 st (excluded_layers st);
          st = foldl (step4_wall lower) st (wall_layers st);
          st = foldl (step4_door lower) st (door_window_layers st)
      in st)"

text \<open>
  \<open>identify_wall_layers\<close> returns \<^verbatim>\<open>list(set(wall_layers + door_window_layers))\<close>. The order
  in which Python lists a set is not specified; the model lists the names in the order of
  their first occurrence, and the properties below speak of the set of names only.
\<close>

definition identify_wall_layers :: "(ustr \<Rightarrow> ustr) \<Rightarrow> layers_info \<Rightarrow> ustr list" where
  "identify_wall_layers lower layers =
     (let st = classify_layers lower layers
      in remdups (wall_layers st @ door_window_layers st))"

text \<open>
  The first statement of \<open>clean_layers\<close>, which is where the default layer enters the list
  of layers to keep: \<^verbatim>\<open>if '0' not in keep_layers: keep_layers.append('0')\<close>.
\<close>

definition clean_layers_keep :: "ustr list \<Rightarrow> ustr list" where
  "clean_layers_keep keep_layers =
     (if asc ''0'' \<notin> set keep_layers then keep_layers @ [asc ''0''] else keep_layers)"

section \<open>A small layer table\<close>

text \<open>
  The default layer without entities, a layer A-WALL with 50 lines and a layer DOOR with 3
  lines.
\<close>

definition wall_doc_layers :: layers_info where
  "wall_doc_layers =
     [(asc ''0'', unused_info), (asc ''A-WALL'', line_info 50), (asc ''DOOR'', line_info 3)]"

section \<open>The vector room assembler\<close>

text \<open>
  \<^verbatim>\<open>extract_skeleton_1.py\<close> works on shapely geometries. The shapely operations are
  parameters, over a type \<open>'g\<close> of geometries and a type \<open>'p\<close> of polygons:
  \<^verbatim>\<open>LineString(points)\<close>, \<^verbatim>\<open>g.intersects(d)\<close>, \<^verbatim>\<open>g.difference(d)\<close>, \<^verbatim>\<open>g.is_empty\<close>,
  \<^verbatim>\<open>g.geom_type\<close>, \<^verbatim>\<open>g.geoms\<close>, \<^verbatim>\<open>unary_union\<close> and \<^verbatim>\<open>polygonize\<close>.
\<close>

datatype geom_type = LineString | MultiLineString | OtherGeometry

record ('g, 'p) shapely =
  line_string :: "xy list \<Rightarrow> 'g"
  intersects :: "'g \<Rightarrow> 'g \<Rightarrow> bool"
  difference :: "'g \<Rightarrow> 'g \<Rightarrow> 'g"
  is_empty :: "'g \<Rightarrow> bool"
  geom_type :: "'g \<Rightarrow> geom_type"
  geoms :: "'g \<Rightarrow> 'g list"
  unary_union :: "'g list \<Rightarrow> 'g"
  polygonize :: "'g \<Rightarrow> 'p list"

text \<open>
  \<open>entity_to_lines\<close>. The end points of a LINE and the location of a POLYLINE vertex are
  ezdxf \<^verbatim>\<open>Vec3\<close> values, which this file slices with \<^verbatim>\<open>[:2]\<close>. A \<^verbatim>\<open>Vec3\<close> does not support
  slicing (\<^verbatim>\<open>extract_skeleton_2.py\<close> says so and reads the coordinates by index instead),
  so the conversion of a LINE raises TypeError, and so does the conversion of a POLYLINE
  at its first vertex. The points of an LWPOLYLINE are tuples, whose slices are their
  first two coordinates: an LWPOLYLINE with at least two points gives the line string of
  its points. Everything else gives \<^verbatim>\<open>None\<close>.
\<close>

fun entity_to_lines :: "('g, 'p) shapely \<Rightarrow> entity \<Rightarrow> py_error + 'g option" where
  "entity_to_lines sh (LINE l a b) = Inl TypeError"
| "entity_to_lines sh (LWPOLYLINE l c pts) =
     Inr (if 2 \<le> length pts then Some (line_string sh pts) else None)"
| "entity_to_lines sh (POLYLINE l c vertices) =
     (if vertices = [] then Inr None else Inl TypeError)"
| "entity_to_lines sh e = Inr None"

text \<open>
  \<^verbatim>\<open>[l for l in (entity_to_lines(w) for w in ents) if l]\<close>: the entities are converted in
  their order, an exception ends the comprehension, \<^verbatim>\<open>None\<close> is false, and a shapely
  geometry is false when it is empty.
\<close>

fun lines_of :: "('g, 'p) shapely \<Rightarrow> entity list \<Rightarrow> py_error + 'g list" where
  "lines_of sh [] = Inr []"
| "lines_of sh (e # es) =
     (case entity_to_lines sh e of
        Inl err \<Rightarrow> Inl err
      | Inr l \<Rightarrow>
          (case lines_of sh es of
             Inl err \<Rightarrow> Inl err
           | Inr ls \<Rightarrow>
               Inr ((case l of
                       None \<Rightarrow> []
                     | Some g \<Rightarrow> if is_empty sh g then [] else [g]) @ ls)))"

text \<open>
  The inner loop of \<open>remove_doors_from_walls\<close> for one wall line: every door line that the
  current geometry intersects is subtracted from it; the loop stops when the geometry has
  become empty.
\<close>

fun cut_wall :: "('g, 'p) shapely \<Rightarrow> 'g \<Rightarrow> 'g list \<Rightarrow> 'g" where
  "cut_wall sh geom [] = geom"
| "cut_wall sh geom (d # ds) =
     (if intersects sh geom d then
        (let geom = difference sh geom d
         in if is_empty sh geom then geom else cut_wall sh geom ds)
      else cut_wall sh geom ds)"

text \<open>What one cut wall line adds to the result list.\<close>

definition residue :: "('g, 'p) shapely \<Rightarrow> 'g \<Rightarrow> 'g list" where
  "residue sh geom =
     (if is_empty sh geom then []
      else case geom_type sh geom of
             LineString \<Rightarrow> [geom]
           | MultiLineString \<Rightarrow> geoms sh geom
           | OtherGeometry \<Rightarrow> [])"

text \<open>The outer loop, over the wall lines.\<close>

definition remove_doors :: "('g, 'p) shapely \<Rightarrow> 'g list \<Rightarrow> 'g list \<Rightarrow> 'g list" where
  "remove_doors sh wall_lines door_lines =
     concat (map (\<lambda>w. residue sh (cut_wall sh w door_lines)) wall_lines)"

text \<open>
  \<open>remove_doors_from_walls\<close>: the wall entities are converted first, then the door
  entities, then the loops run.
\<close>

definition remove_doors_from_walls ::
  "('g, 'p) shapely \<Rightarrow> entity list \<Rightarrow> entity list \<Rightarrow> py_error + 'g list" where
  "remove_doors_from_walls sh wall_ents door_ents =
     (case lines_of sh wall_ents of
        Inl err \<Rightarrow> Inl err
      | Inr wall_lines \<Rightarrow>
          (case lines_of sh door_ents of
             Inl err \<Rightarrow> Inl err
           | Inr door_lines \<Rightarrow> Inr (remove_doors sh wall_lines door_lines)))"

definition associate_walls :: "('g, 'p) shapely \<Rightarrow> 'g list \<Rightarrow> 'p list \<times> 'g" where
  "associate_walls sh wall_lines =
     (let unioned = unary_union sh wall_lines in (polygonize sh unioned, unioned))"

text \<open>The two calls of \<open>main\<close> that produce the closed polygons.\<close>

definition closed_polygons ::
  "('g, 'p) shapely \<Rightarrow> entity list \<Rightarrow> entity list \<Rightarrow> py_error + 'p list" where
  "closed_polygons sh walls doors =
     (case remove_doors_from_walls sh walls doors of
        Inl err \<Rightarrow> Inl err
      | Inr clean_walls \<Rightarrow> Inr (fst (associate_walls sh clean_walls)))"


section \<open>A geometry of closed intervals\<close>







section \<open>Properties of the raster room detector\<close>

lemma edge_rows_sound:
  "edge_rows lab n xs acc = Inr E \<Longrightarrow>
     acc \<subseteq> E \<and> (\<forall>x\<in>set xs. \<forall>v. 0 < v \<longrightarrow> (px lab 0 x = Inr v \<or> px lab (n - 1) x = Inr v) \<longrightarrow> v \<in> E)"
proof (induction xs arbitrary: acc)
  case Nil
  then show ?case by simp
next
  case (Cons x xs)
  from Cons.prems obtain a b where a: "px lab 0 x = Inr a" and b: "px lab (n - 1) x = Inr b"
    and r: "edge_rows lab n xs (add_label b (add_label a acc)) = Inr E"
    by (auto split: sum.splits)
  from Cons.IH [OF r] a b show ?case
    by (auto simp: add_label_def split: if_splits)
qed

lemma edge_cols_sound:
  "edge_cols lab n ys acc = Inr E \<Longrightarrow>
     acc \<subseteq> E \<and> (\<forall>y\<in>set ys. \<forall>v. 0 < v \<longrightarrow> (px lab y 0 = Inr v \<or> px lab y (n - 1) = Inr v) \<longrightarrow> v \<in> E)"
proof (induction ys arbitrary: acc)
  case Nil
  then show ?case by simp
next
  case (Cons y ys)
  from Cons.prems obtain a b where a: "px lab y 0 = Inr a" and b: "px lab y (n - 1) = Inr b"
    and r: "edge_cols lab n ys (add_label b (add_label a acc)) = Inr E"
    by (auto split: sum.splits)
  from Cons.IH [OF r] a b show ?case
    by (auto simp: add_label_def split: if_splits)
qed

lemma edge_labels_sound:
  assumes "edge_labels lab n = Inr E" "i < n" "0 < v"
    and "px lab 0 i = Inr v \<or> px lab (n - 1) i = Inr v \<or> px lab i 0 = Inr v \<or> px lab i (n - 1) = Inr v"
  shows "v \<in> E"
proof -
  from assms(1) obtain A where A: "edge_rows lab n [0..<n] {} = Inr A"
    and E: "edge_cols lab n [0..<n] A = Inr E"
    by (auto simp: edge_labels_def split: sum.splits)
  from edge_rows_sound [OF A] edge_cols_sound [OF E] assms(2,3,4) show ?thesis
    by auto
qed

lemma scan_props_member:
  "scan_props lib lab ext n mn mx edge ps = Inr rs \<Longrightarrow> (l, poly) \<in> set rs \<Longrightarrow>
     \<exists>p\<in>set ps. label p = l \<and> examine lib lab ext n mn mx edge p = Inr (Some poly)"
proof (induction ps arbitrary: rs)
  case Nil
  then show ?case by simp
next
  case (Cons p ps)
  from Cons.prems(1) obtain r rs' where r: "examine lib lab ext n mn mx edge p = Inr r"
    and rs': "scan_props lib lab ext n mn mx edge ps = Inr rs'"
    and rs: "rs = (case r of None \<Rightarrow> rs' | Some poly \<Rightarrow> (label p, poly) # rs')"
    by (auto split: sum.splits)
  show ?case
  proof (cases "(l, poly) \<in> set rs'")
    case True
    from Cons.IH [OF rs' True] show ?thesis by auto
  next
    case False
    with rs Cons.prems(2) have "r = Some poly \<and> label p = l"
      by (cases r) auto
    with r show ?thesis by auto
  qed
qed

lemma examine_Some:
  "examine lib lab ext n mn mx edge p = Inr (Some poly) \<Longrightarrow>
     mn \<le> area p \<and> area p \<le> mx \<and> label p \<notin> edge \<and>
     shape_filter (area p) (perimeter p) = Inr False \<and>
     contour_stage lib lab ext n p = Some poly"
  by (auto simp: examine_def after_area_filter_def split: if_splits sum.splits bool.splits)

lemma contour_stage_length:
  "contour_stage lib lab ext n p = Some poly \<Longrightarrow> 3 \<le> length poly \<and> length poly \<le> 100"
  by (auto simp: contour_stage_def Let_def split: list.splits if_splits)

lemma shape_filter_no_error: "shape_filter a p \<noteq> Inl e"
  by (simp add: shape_filter_def checked_div_def)

lemma examine_no_error: "examine lib lab ext n mn mx edge p \<noteq> Inl e"
  using shape_filter_no_error [of "area p" "perimeter p"]
  by (auto simp: examine_def after_area_filter_def split: sum.splits bool.splits)

lemma scan_props_no_error: "scan_props lib lab ext n mn mx edge ps \<noteq> Inl e"
  by (induction ps) (auto simp: examine_no_error split: sum.splits)

lemma shape_filter_inner: "shape_filter 9 8 = Inr False"
proof -
  have "(3::real) / 100 \<le> 4 * 2 * 9 / (8 * 8)" by simp
  also have "\<dots> \<le> 4 * pi * 9 / (8 * 8)" using pi_ge_two by simp
  finally show ?thesis by (simp add: shape_filter_def checked_div_def)
qed

lemma demo_edge: "edge_labels demo_lab 7 = Inr {1}"
  by (simp add: edge_labels_def px_def demo_lab_def add_label_def upt_rec)

lemma demo_contour_stage_any:
  "contour_stage demo_lib demo_lab ext 7 demo_inner = Some (map (to_drawing ext 7) demo_contour)"
proof -
  have "length demo_contour = 13" by (simp add: demo_contour_def)
  then show ?thesis
    by (simp add: contour_stage_def demo_lib_def demo_inner_def simplify_polygon_def)
qed

lemma demo_poly_eq: "map (to_drawing demo_ext 7) demo_contour = demo_poly"
  by (simp add: demo_contour_def demo_poly_def to_drawing_def demo_ext_def np_truediv_def
      pf_sub_def)

lemma demo_contour_stage:
  "contour_stage demo_lib demo_lab demo_ext 7 demo_inner = Some demo_poly"
  by (simp add: demo_contour_stage_any demo_poly_eq)

lemma demo_thresholds:
  "min_room_area_pixels 1 7 = 0" "max_room_area_pixels None 7 = 29"
  by (simp_all add: min_room_area_pixels_def max_room_area_pixels_def trunc_real_def)

lemma identify_rooms_labelled_nonempty:
  assumes "img \<noteq> []"
  shows "identify_rooms_labelled lib img ext mn mx =
     (case edge_labels (labeled_img lib img) (length img) of
        Inl e \<Rightarrow> Inl e
      | Inr edge \<Rightarrow>
          scan_props lib (labeled_img lib img) ext (length img)
            (min_room_area_pixels mn (length img)) (max_room_area_pixels mx (length img)) edge
            (regionprops lib (labeled_img lib img)))"
proof -
  obtain a b c d where ext: "ext = (a, b, c, d)" by (cases ext) auto
  from assms have "real (length img * length img) \<noteq> 0" by simp
  then have "py_truediv (pf_mul (pf_sub c a) (pf_sub d b)) (Fin (real (length img * length img)))
      = Inr (pf_div_vals (pf_mul (pf_sub c a) (pf_sub d b)) (Fin (real (length img * length img))))"
    unfolding py_truediv_def by simp
  then show ?thesis
    unfolding identify_rooms_labelled_def Let_def ext by simp
qed

lemma demo_examine_outer:
  "examine demo_lib demo_lab ext 7 0 29 {1} demo_outer = Inr None"
  by (simp add: examine_def after_area_filter_def demo_outer_def)

lemma demo_examine_inner:
  "examine demo_lib demo_lab ext 7 0 29 {1} demo_inner =
     Inr (Some (map (to_drawing ext 7) demo_contour))"
  using shape_filter_inner demo_contour_stage_any
  by (simp add: examine_def after_area_filter_def demo_inner_def)

lemma demo_labelled_any:
  assumes len: "length img = 7"
  shows "identify_rooms_labelled demo_lib img ext 1 None =
     Inr [(2, map (to_drawing ext 7) demo_contour)]"
proof -
  from len have ne: "img \<noteq> []" by auto
  have lab: "labeled_img demo_lib img = demo_lab"
    by (simp add: labeled_img_def demo_lib_def)
  have props: "regionprops demo_lib demo_lab = [demo_outer, demo_inner]"
    by (simp add: demo_lib_def)
  have l2: "label demo_inner = 2" by (simp add: demo_inner_def)
  show ?thesis
    unfolding identify_rooms_labelled_nonempty [OF ne] len lab props demo_thresholds demo_edge
    by (simp add: demo_examine_outer demo_examine_inner l2 del: One_nat_def)
qed

lemma demo_identify_any:
  "length img = 7 \<Longrightarrow>
   identify_rooms demo_lib img ext 1 None = Inr [map (to_drawing ext 7) demo_contour]"
  by (simp add: identify_rooms_def demo_labelled_any)

lemma demo_labelled:
  "identify_rooms_labelled demo_lib demo_img demo_ext 1 None = Inr [(2, demo_poly)]"
proof -
  have "length demo_img = 7" by (simp add: demo_img_def)
  from demo_labelled_any [OF this] show ?thesis by (simp add: demo_poly_eq)
qed

lemma px_error: "px lab r c = Inl e \<Longrightarrow> e = IndexError"
  by (simp add: px_def split: if_splits)

lemma edge_rows_error: "edge_rows lab n xs acc = Inl e \<Longrightarrow> e = IndexError"
  by (induction xs arbitrary: acc) (auto split: sum.splits dest: px_error)

lemma edge_cols_error: "edge_cols lab n xs acc = Inl e \<Longrightarrow> e = IndexError"
  by (induction xs arbitrary: acc) (auto split: sum.splits dest: px_error)

lemma edge_labels_error: "edge_labels lab n = Inl e \<Longrightarrow> e = IndexError"
  by (auto simp: edge_labels_def split: sum.splits dest: edge_rows_error edge_cols_error)

lemma identify_rooms_labelled_error:
  assumes "img \<noteq> []" "identify_rooms_labelled lib img ext mn mx = Inl e"
  shows "e = IndexError"
  using assms(2) unfolding identify_rooms_labelled_nonempty [OF assms(1)]
  by (auto split: sum.splits dest: edge_labels_error simp: scan_props_no_error)

lemma demo_identify: "identify_rooms demo_lib demo_img demo_ext 1 None = Inr [demo_poly]"
  by (simp add: identify_rooms_def demo_labelled)

text \<open>
  Claim C4. No polygon returned by \<open>identify_rooms\<close> comes from a connected component
  (a positive label) that has a pixel on row 0, row \<open>size - 1\<close>, column 0 or column
  \<open>size - 1\<close> of the labelled floor mask: whenever the detector returns, each returned
  polygon is paired with the label it was traced from, and that label occurs nowhere on
  those two rows and two columns.
\<close>

theorem border_components_rejected:
  assumes "identify_rooms lib img ext min_room_area max_room_area = Inr polys"
  shows "\<exists>rooms. identify_rooms_labelled lib img ext min_room_area max_room_area = Inr rooms \<and>
           polys = map snd rooms \<and>
           (\<forall>(l, poly) \<in> set rooms. 0 < l \<longrightarrow>
              (\<forall>i < length img.
                 px (labeled_img lib img) 0 i \<noteq> Inr l \<and>
                 px (labeled_img lib img) (length img - 1) i \<noteq> Inr l \<and>
                 px (labeled_img lib img) i 0 \<noteq> Inr l \<and>
                 px (labeled_img lib img) i (length img - 1) \<noteq> Inr l))"
proof -
  from assms obtain rooms
    where rooms: "identify_rooms_labelled lib img ext min_room_area max_room_area = Inr rooms"
      and polys: "polys = map snd rooms"
    by (auto simp: identify_rooms_def split: sum.splits)
  have "px (labeled_img lib img) 0 i \<noteq> Inr l \<and>
        px (labeled_img lib img) (length img - 1) i \<noteq> Inr l \<and>
        px (labeled_img lib img) i 0 \<noteq> Inr l \<and>
        px (labeled_img lib img) i (length img - 1) \<noteq> Inr l"
    if mem: "(l, poly) \<in> set rooms" and pos: "0 < l" and i: "i < length img" for l poly i
  proof -
    from i have ne: "img \<noteq> []" by auto
    from rooms obtain edge
      where edge: "edge_labels (labeled_img lib img) (length img) = Inr edge"
        and scan: "scan_props lib (labeled_img lib img) ext (length img)
            (min_room_area_pixels min_room_area (length img))
            (max_room_area_pixels max_room_area (length img)) edge
            (regionprops lib (labeled_img lib img)) = Inr rooms"
      unfolding identify_rooms_labelled_nonempty [OF ne] by (auto split: sum.splits)
    from scan_props_member [OF scan mem] examine_Some have "l \<notin> edge" by blast
    with edge_labels_sound [OF edge i pos] show ?thesis by blast
  qed
  with rooms polys show ?thesis by blast
qed

text \<open>
  The 7x7 example: the detector returns the inner region 2, which is absent from the border.
\<close>

theorem border_components_rejected_witness:
  "identify_rooms demo_lib demo_img demo_ext 1 None = Inr [demo_poly] \<and>
   identify_rooms_labelled demo_lib demo_img demo_ext 1 None = Inr [(2, demo_poly)] \<and>
   px demo_lab 0 3 \<noteq> Inr 2 \<and> px demo_lab 6 3 \<noteq> Inr 2 \<and>
   px demo_lab 3 0 \<noteq> Inr 2 \<and> px demo_lab 3 6 \<noteq> Inr 2"
proof -
  have lab: "labeled_img demo_lib demo_img = demo_lab"
    by (simp add: labeled_img_def demo_lib_def)
  have len: "length demo_img = 7" by (simp add: demo_img_def)
  from border_components_rejected [OF demo_identify]
  have "\<forall>i<7. px demo_lab 0 i \<noteq> Inr 2 \<and> px demo_lab 6 i \<noteq> Inr 2 \<and>
           px demo_lab i 0 \<noteq> Inr 2 \<and> px demo_lab i 6 \<noteq> Inr 2"
    by (simp add: demo_labelled lab len)
  then have "px demo_lab 0 3 \<noteq> Inr 2 \<and> px demo_lab 6 3 \<noteq> Inr 2 \<and>
           px demo_lab 3 0 \<noteq> Inr 2 \<and> px demo_lab 3 6 \<noteq> Inr 2"
    by simp
  with demo_identify demo_labelled show ?thesis by simp
qed

text \<open>
  Claim C5, as amended. A component of area \<open>min_room_area_pixels - 1\<close> is rejected, and so
  is one of an area above \<open>max_room_area_pixels\<close>. A component whose area is exactly
  \<open>min_room_area_pixels\<close> (or exactly \<open>max_room_area_pixels\<close>) passes the area filter, that
  is, goes on to the border and shape filters, provided that
  \<open>min_room_area_pixels \<le> max_room_area_pixels\<close>.
\<close>

theorem area_filter_bounds:
  "(area p = min_px - 1 \<longrightarrow> examine lib lab ext img_size min_px max_px edge p = Inr None) \<and>
   (max_px < area p \<longrightarrow> examine lib lab ext img_size min_px max_px edge p = Inr None) \<and>
   (min_px \<le> max_px \<and> (area p = min_px \<or> area p = max_px) \<longrightarrow>
      examine lib lab ext img_size min_px max_px edge p =
      after_area_filter lib lab ext img_size edge p)"
  by (auto simp: examine_def)

text \<open>The inner region of the example has area 9; the four cases of the theorem on it.\<close>

theorem area_filter_bounds_witness:
  "examine demo_lib demo_lab demo_ext 7 10 29 {1} demo_inner = Inr None \<and>
   examine demo_lib demo_lab demo_ext 7 0 8 {1} demo_inner = Inr None \<and>
   examine demo_lib demo_lab demo_ext 7 9 29 {1} demo_inner = Inr (Some demo_poly) \<and>
   examine demo_lib demo_lab demo_ext 7 0 9 {1} demo_inner = Inr (Some demo_poly)"
proof -
  have after: "after_area_filter demo_lib demo_lab demo_ext 7 {1} demo_inner = Inr (Some demo_poly)"
    using shape_filter_inner demo_contour_stage
    by (simp add: after_area_filter_def demo_inner_def)
  have a: "area demo_inner = 9" by (simp add: demo_inner_def)
  from area_filter_bounds [of demo_inner 10 demo_lib demo_lab demo_ext 7 29 "{1}"]
    area_filter_bounds [of demo_inner 0 demo_lib demo_lab demo_ext 7 8 "{1}"]
    area_filter_bounds [of demo_inner 9 demo_lib demo_lab demo_ext 7 29 "{1}"]
    area_filter_bounds [of demo_inner 0 demo_lib demo_lab demo_ext 7 9 "{1}"]
  show ?thesis by (simp add: a after del: One_nat_def)
qed

text \<open>
  Claim C5 as stated fails when the lower threshold exceeds the upper one. With
  \<open>min_room_area = 20\<close> and \<open>max_room_area = 15\<close> (per cent) on the 7x7 image the thresholds
  are 9 and 7 pixels; the inner region has exactly 9 pixels and would pass the later
  filters, but the area filter rejects it and the detector returns no room.
\<close>

theorem area_filter_min_counterexample:
  "area demo_inner = min_room_area_pixels 20 7 \<and>
   examine demo_lib demo_lab demo_ext 7 (min_room_area_pixels 20 7)
     (max_room_area_pixels (Some 15) 7) {1} demo_inner = Inr None \<and>
   after_area_filter demo_lib demo_lab demo_ext 7 {1} demo_inner = Inr (Some demo_poly) \<and>
   identify_rooms demo_lib demo_img demo_ext 20 (Some 15) = Inr []"
proof -
  have mn: "min_room_area_pixels 20 7 = 9"
    by (simp add: min_room_area_pixels_def trunc_real_def)
  have mx: "max_room_area_pixels (Some 15) 7 = 7"
    by (simp add: max_room_area_pixels_def trunc_real_def)
  have after: "after_area_filter demo_lib demo_lab demo_ext 7 {1} demo_inner = Inr (Some demo_poly)"
    using shape_filter_inner demo_contour_stage
    by (simp add: after_area_filter_def demo_inner_def)
  have a: "area demo_inner = 9" by (simp add: demo_inner_def)
  have ex: "examine demo_lib demo_lab demo_ext 7 9 7 edge demo_inner = Inr None" for edge
    by (simp add: examine_def demo_inner_def)
  have ex1: "examine demo_lib demo_lab demo_ext 7 9 7 edge demo_outer = Inr None" for edge
    by (simp add: examine_def demo_outer_def)
  have len: "length demo_img = 7" by (simp add: demo_img_def)
  have ne: "demo_img \<noteq> []" by (simp add: demo_img_def)
  have lab: "labeled_img demo_lib demo_img = demo_lab"
    by (simp add: labeled_img_def demo_lib_def)
  have props: "regionprops demo_lib demo_lab = [demo_outer, demo_inner]"
    by (simp add: demo_lib_def)
  have "identify_rooms_labelled demo_lib demo_img demo_ext 20 (Some 15) = Inr []"
    unfolding identify_rooms_labelled_nonempty [OF ne] len lab props mn mx demo_edge
    by (simp add: ex ex1 del: One_nat_def)
  then show ?thesis
    by (simp add: mn mx ex after identify_rooms_def a del: One_nat_def)
qed

lemma identify_rooms_vertex_bounds:
  assumes "identify_rooms lib img ext min_room_area max_room_area = Inr polys"
    and "poly \<in> set polys"
  shows "3 \<le> length poly \<and> length poly \<le> 100"
proof -
  from assms obtain rooms l
    where rooms: "identify_rooms_labelled lib img ext min_room_area max_room_area = Inr rooms"
      and mem: "(l, poly) \<in> set rooms"
    by (auto simp: identify_rooms_def split: sum.splits)
  show ?thesis
  proof (cases "img = []")
    case True
    with rooms show ?thesis
      by (cases ext) (simp add: identify_rooms_labelled_def py_truediv_def)
  next
    case False
    from rooms obtain edge
      where scan: "scan_props lib (labeled_img lib img) ext (length img)
            (min_room_area_pixels min_room_area (length img))
            (max_room_area_pixels max_room_area (length img)) edge
            (regionprops lib (labeled_img lib img)) = Inr rooms"
      unfolding identify_rooms_labelled_nonempty [OF False] by (auto split: sum.splits)
    from scan_props_member [OF scan mem] examine_Some contour_stage_length
    show ?thesis by blast
  qed
qed

text \<open>
  Claim C8. Every polygon returned by \<open>identify_rooms\<close> has between 3 and 100 vertices,
  whatever the contour and simplification routines return.
\<close>

theorem raster_vertex_count:
  assumes "identify_rooms lib img ext min_room_area max_room_area = Inr polys"
    and "poly \<in> set polys"
  shows "3 \<le> length poly \<and> length poly \<le> 100"
  using assms by (rule identify_rooms_vertex_bounds)

text \<open>The polygon returned for the example has 13 vertices.\<close>

theorem raster_vertex_count_witness:
  "identify_rooms demo_lib demo_img demo_ext 1 None = Inr [demo_poly] \<and>
   3 \<le> length demo_poly \<and> length demo_poly \<le> 100"
  using raster_vertex_count [OF demo_identify, of demo_poly] demo_identify by simp

text \<open>
  Claim C10. The shape filter never raises: the division of the compactness formula is
  evaluated only when \<open>perimeter > 0\<close>, where its divisor \<open>perimeter * perimeter\<close> is not zero.
  A component of perimeter 0 is not rejected by the shape filter: after the border test it
  goes straight to the contour stage. For a non-empty image the whole detector never
  raises ZeroDivisionError (for an empty image the unrelated division by
  \<open>img_size * img_size\<close> at the start of the function does).
\<close>

theorem compactness_division_guarded:
  "shape_filter a p \<noteq> Inl e \<and>
   (0 < p \<longrightarrow> checked_div (4 * pi * real_of_int a) (p * p) =
                Inr (4 * pi * real_of_int a / (p * p))) \<and>
   (perimeter r = 0 \<longrightarrow>
      shape_filter (area r) (perimeter r) = Inr False \<and>
      after_area_filter lib lab ext img_size edge r =
        (if label r \<in> edge then Inr None else Inr (contour_stage lib lab ext img_size r))) \<and>
   (img \<noteq> [] \<longrightarrow> identify_rooms lib img ext min_room_area max_room_area \<noteq> Inl ZeroDivisionError)"
proof -
  have "identify_rooms lib img ext min_room_area max_room_area \<noteq> Inl ZeroDivisionError"
    if ne: "img \<noteq> []"
  proof
    assume "identify_rooms lib img ext min_room_area max_room_area = Inl ZeroDivisionError"
    then have "identify_rooms_labelled lib img ext min_room_area max_room_area = Inl ZeroDivisionError"
      by (auto simp: identify_rooms_def split: sum.splits)
    from identify_rooms_labelled_error [OF ne this] show False by simp
  qed
  then show ?thesis
    by (auto simp: shape_filter_def checked_div_def after_area_filter_def)
qed

text \<open>
  The inner region of the example (perimeter 8) and a one-pixel region (perimeter 0).
\<close>

theorem compactness_division_guarded_witness:
  "shape_filter 9 8 \<noteq> Inl ZeroDivisionError \<and>
   checked_div (4 * pi * 9) (8 * 8) = Inr (4 * pi * 9 / (8 * 8)) \<and>
   shape_filter 1 0 = Inr False \<and>
   after_area_filter demo_lib demo_lab demo_ext 7 {1} demo_pixel =
     Inr (contour_stage demo_lib demo_lab demo_ext 7 demo_pixel) \<and>
   identify_rooms demo_lib demo_img demo_ext 1 None \<noteq> Inl ZeroDivisionError"
proof -
  have ne: "demo_img \<noteq> []" by (simp add: demo_img_def)
  from compactness_division_guarded [of 9 8 ZeroDivisionError demo_pixel demo_lib demo_lab
      demo_ext 7 "{1}" demo_img 1 None] ne
  show ?thesis by (simp add: demo_pixel_def)
qed

section \<open>Properties of the reconciler and the pipeline\<close>

lemma reconcile_rooms_eq:
  "reconcile_rooms from_layers from_walls =
     (if 3 \<le> length from_layers then from_layers else from_layers @ from_walls)"
  by (auto simp: reconcile_rooms_def Let_def)

lemma hatch_rooms_length: "vs \<in> set (hatch_rooms a paths) \<Longrightarrow> 3 \<le> length vs"
  by (induction a paths rule: hatch_rooms.induct) (auto split: if_splits)

lemma entity_rooms_length: "vs \<in> set (entity_rooms rls a e) \<Longrightarrow> 3 \<le> length vs"
  by (cases e) (auto split: if_splits dest: hatch_rooms_length)

lemma rooms_from_layers_length:
  "room \<in> set (rooms_from_layers rls a msp) \<Longrightarrow> 3 \<le> length room"
  by (auto simp: rooms_from_layers_def split: if_splits dest: entity_rooms_length)

lemma convert_walls_extents:
  "convert_walls_to_image lib walls n = Inr (img, ext) \<Longrightarrow> ext = walls_extents walls"
  by (auto simp: convert_walls_to_image_def Let_def split: sum.splits)

lemma extract_walls_and_rooms_result:
  assumes "extract_walls_and_rooms lib lower layers msp a n = Inr (walls, rooms, ext)"
  shows "\<exists>img from_walls.
           walls = collect_walls layers msp \<and>
           convert_walls_to_image lib walls n = Inr (img, walls_extents walls) \<and>
           identify_rooms lib img (walls_extents walls) a None = Inr from_walls \<and>
           rooms = reconcile_rooms (rooms_from_layers (room_layers_of lower layers) a msp) from_walls \<and>
           ext = choose_extents
                   (extents_from_rooms (rooms_from_layers (room_layers_of lower layers) a msp))
                   (walls_extents walls)"
proof -
  from assms obtain img e' from_walls
    where conv: "convert_walls_to_image lib (collect_walls layers msp) n = Inr (img, e')"
      and ident: "identify_rooms lib img e' a None = Inr from_walls"
      and res: "walls = collect_walls layers msp"
        "rooms = reconcile_rooms (rooms_from_layers (room_layers_of lower layers) a msp) from_walls"
        "ext = choose_extents
                 (extents_from_rooms (rooms_from_layers (room_layers_of lower layers) a msp)) e'"
    by (auto simp: extract_walls_and_rooms_def Let_def split: sum.splits prod.splits)
  from convert_walls_extents [OF conv] have "e' = walls_extents (collect_walls layers msp)" .
  with conv ident res show ?thesis by auto
qed

lemma choose_extents_eq:
  "choose_extents from_rooms from_walls = (case from_rooms of Some r \<Rightarrow> r | None \<Rightarrow> from_walls)"
  by (simp add: choose_extents_def opt_truthy_def tuple_truthy_def split: option.splits)

lemma extract_rooms_from_dwg_result:
  assumes "extract_rooms_from_dwg lib lower layers msp a n = Inr (rooms, ext)"
  shows "\<exists>walls ext'.
           extract_walls_and_rooms lib lower layers msp a n = Inr (walls, rooms, ext') \<and>
           ext = (case get_drawing_extents msp of Some d \<Rightarrow> d | None \<Rightarrow> ext')"
  using assms
  by (auto simp: extract_rooms_from_dwg_def Let_def opt_truthy_def tuple_truthy_def
      split: sum.splits prod.splits option.splits)

lemma final_extents_eq:
  assumes "extract_rooms_from_dwg lib lower layers msp a n = Inr (rooms, ext)"
  shows "ext =
     (case get_drawing_extents msp of
        Some d \<Rightarrow> d
      | None \<Rightarrow>
          (case extents_from_rooms (rooms_from_layers (room_layers_of lower layers) a msp) of
             Some r \<Rightarrow> r
           | None \<Rightarrow> walls_extents (collect_walls layers msp)))"
proof -
  from extract_rooms_from_dwg_result [OF assms] obtain walls ext'
    where w: "extract_walls_and_rooms lib lower layers msp a n = Inr (walls, rooms, ext')"
      and e: "ext = (case get_drawing_extents msp of Some d \<Rightarrow> d | None \<Rightarrow> ext')"
    by blast
  from extract_walls_and_rooms_result [OF w] e show ?thesis
    by (auto simp: choose_extents_eq)
qed

subsection \<open>The example documents, evaluated\<close>

lemma valid_square: "is_valid_room square10 1"
  by (simp add: is_valid_room_def shoelace_twice_def square10_def upt_rec)

lemma extents_of_square: "extents_from_rooms [map fin_pt square10] = Some box10"
  by (simp add: extents_from_rooms_def square10_def fin_pt_def grow_def empty_box_def
      py_min_def py_max_def box10_def)

lemma to_pixel_fin:
  assumes "lo \<le> hi"
  shows "to_pixel (Fin c) (Fin lo) (Fin hi) n =
           Inr (trunc_real ((c - lo) / (hi - lo + 1 / 10 ^ 10) * real_of_int (int n - 1)))"
proof -
  from assms have "hi - lo + 1 / 10 ^ 10 \<noteq> 0"
    by (smt (verit) divide_pos_pos zero_less_power zero_less_one)
  then show ?thesis
    by (simp add: to_pixel_def py_truediv_def pf_sub_def)
qed

lemma draw_segment_fin:
  assumes "x0 \<le> x1" "y0 \<le> y1"
  shows "\<exists>p q. draw_segment lib (Fin x0, Fin y0, Fin x1, Fin y1) n t img
            ((Fin a, Fin b), (Fin c, Fin d)) = Inr (cv2_line lib img p q 255 t)"
  by (simp add: draw_segment_def to_pixel_fin [OF assms(1)] to_pixel_fin [OF assms(2)]) blast

lemma draw_segments_identity:
  assumes "cv2_line lib = (\<lambda>im p q colour thickness. im)" "x0 \<le> x1" "y0 \<le> y1"
    and "\<forall>seg \<in> set segs. \<exists>a b c d. seg = ((Fin a, Fin b), (Fin c, Fin d))"
  shows "draw_segments lib (Fin x0, Fin y0, Fin x1, Fin y1) n t img segs = Inr img"
  using assms(4)
proof (induction segs)
  case Nil
  then show ?case by simp
next
  case (Cons seg segs)
  then obtain a b c d where seg: "seg = ((Fin a, Fin b), (Fin c, Fin d))" by auto
  from draw_segment_fin [OF assms(2,3), of lib n t img a b c d] assms(1)
  have "draw_segment lib (Fin x0, Fin y0, Fin x1, Fin y1) n t img seg = Inr img"
    by (auto simp: seg)
  with Cons show ?case by simp
qed

lemma room_layers_hatch: "room_layers_of ascii_lower hatch_layers = [asc ''0'']"
  by (simp add: room_layers_of_def hatch_layers_def room_layer_keywords_def asc_def
      ascii_lower_def histogram_says_room_def hatch_info_def line_info_def get0_def)

lemma room_layers_line: "room_layers_of ascii_lower line_layers = []"
  by (simp add: room_layers_of_def line_layers_def room_layer_keywords_def asc_def
      ascii_lower_def histogram_says_room_def unused_info_def line_info_def get0_def)

lemma room_layers_room: "room_layers_of ascii_lower room_layers_doc = [asc ''ROOM'']"
  by (simp add: room_layers_of_def room_layers_doc_def room_layer_keywords_def asc_def
      ascii_lower_def histogram_says_room_def polyline_info_def ring_info_def get0_def)

lemma rooms_hatch: "rooms_from_layers [asc ''0''] 1 hatch_msp = [map fin_pt square10]"
  using valid_square
  by (simp add: rooms_from_layers_def hatch_msp_def) (simp add: square10_def)

lemma rooms_room: "rooms_from_layers [asc ''ROOM''] 1 room_msp = [map fin_pt square10]"
  using valid_square
  by (simp add: rooms_from_layers_def room_msp_def) (simp add: square10_def)

lemma drawing_hatch: "get_drawing_extents hatch_msp = None"
  by (simp add: get_drawing_extents_def hatch_msp_def)

lemma drawing_line: "get_drawing_extents line_msp = None"
  by (simp add: get_drawing_extents_def line_msp_def)

lemma drawing_room: "get_drawing_extents room_msp = Some box12"
  by (simp add: get_drawing_extents_def room_msp_def square10_def fin_pt_def grow_def
      empty_box_def py_min_def py_max_def box12_def)

lemma walls_hatch:
  "collect_walls hatch_layers hatch_msp = [[((Fin 0, Fin 0), (Fin 20, Fin 20))]]"
  by (simp add: collect_walls_def hatch_msp_def exclude_layers_of_def hatch_layers_def
      furniture_equipment_keywords_def asc_def fin_pt_def)

lemma walls_line:
  "collect_walls line_layers line_msp = [[((Fin 0, Fin 0), (Fin 20, Fin 20))]]"
  by (simp add: collect_walls_def line_msp_def exclude_layers_of_def line_layers_def
      furniture_equipment_keywords_def asc_def fin_pt_def)

lemma walls_room:
  "collect_walls room_layers_doc room_msp =
     [[((Fin 0, Fin 0), (Fin 10, Fin 0)), ((Fin 10, Fin 0), (Fin 10, Fin 10)),
       ((Fin 10, Fin 10), (Fin 0, Fin 10)), ((Fin 0, Fin 10), (Fin 0, Fin 0))],
      [((Fin 2, Fin 2), (Fin 8, Fin 2))], [((Fin 8, Fin 2), (Fin 8, Fin 8))],
      [((Fin 8, Fin 8), (Fin 2, Fin 8))], [((Fin 2, Fin 8), (Fin 2, Fin 2))]]"
  by (simp add: collect_walls_def room_msp_def exclude_layers_of_def room_layers_doc_def
      furniture_equipment_keywords_def asc_def fin_pt_def polyline_segments_def square10_def
      upt_rec)

lemma walls_ext_diag:
  "walls_extents [[((Fin 0, Fin 0), (Fin 20, Fin 20))]] = box20"
  by (simp add: walls_extents_def grow_def empty_box_def py_min_def py_max_def box20_def)

lemma walls_ext_room:
  "walls_extents (collect_walls room_layers_doc room_msp) = box10"
  by (simp add: walls_room walls_extents_def grow_def empty_box_def py_min_def py_max_def
      box10_def)

lemma convert_diag:
  "convert_walls_to_image diag_lib [[((Fin 0, Fin 0), (Fin 20, Fin 20))]] 7 = Inr (zeros 7, box20)"
proof -
  have "draw_segments diag_lib (Fin 0, Fin 0, Fin 20, Fin 20) 7 5 (zeros 7)
          [((Fin 0, Fin 0), (Fin 20, Fin 20))] = Inr (zeros 7)"
    by (rule draw_segments_identity) (simp_all add: diag_lib_def)
  then show ?thesis
    by (simp add: convert_walls_to_image_def walls_ext_diag box20_def del: draw_segments.simps)
qed

lemma convert_room:
  "convert_walls_to_image demo_lib (collect_walls room_layers_doc room_msp) 7 = Inr (zeros 7, box10)"
proof -
  have "draw_segments demo_lib (Fin 0, Fin 0, Fin 10, Fin 10) 7 5 (zeros 7)
          (concat (collect_walls room_layers_doc room_msp)) = Inr (zeros 7)"
    by (rule draw_segments_identity) (auto simp: demo_lib_def walls_room)
  then show ?thesis
    by (simp add: convert_walls_to_image_def walls_ext_room box10_def del: draw_segments.simps)
qed

lemma convert_empty: "convert_walls_to_image lib [] n = Inr (zeros n, empty_box)"
  by (simp add: convert_walls_to_image_def walls_extents_def)

lemma length_zeros: "length (zeros n) = n"
  by (simp add: zeros_def)

lemma diag_edge: "edge_labels diag_lab 7 = Inr {1, 2}"
  by (simp add: edge_labels_def px_def diag_lab_def add_label_def upt_rec insert_commute)

lemma identify_diag: "identify_rooms diag_lib (zeros 7) ext 1 None = Inr []"
proof -
  have ne: "zeros 7 \<noteq> []" by (simp add: zeros_def)
  have lab: "labeled_img diag_lib (zeros 7) = diag_lab"
    by (simp add: labeled_img_def diag_lib_def)
  have props: "regionprops diag_lib diag_lab = [diag_upper, diag_lower]"
    by (simp add: diag_lib_def)
  have ex: "examine diag_lib diag_lab ext 7 0 29 {1, 2} diag_upper = Inr None"
    "examine diag_lib diag_lab ext 7 0 29 {1, 2} diag_lower = Inr None"
    by (simp_all add: examine_def after_area_filter_def diag_upper_def diag_lower_def)
  have "identify_rooms_labelled diag_lib (zeros 7) ext 1 None = Inr []"
    unfolding identify_rooms_labelled_nonempty [OF ne] length_zeros lab props demo_thresholds
      diag_edge
    by (simp add: ex del: One_nat_def)
  then show ?thesis by (simp add: identify_rooms_def)
qed

lemma blank_labeled: "labeled_img blank_lib (zeros 7) = replicate 7 (replicate 7 1)"
  by (simp add: labeled_img_def blank_lib_def invert_walls_def zeros_def)

lemma blank_edge: "edge_labels (replicate 7 (replicate 7 1)) 7 = Inr {1}"
  by (simp add: edge_labels_def px_def add_label_def upt_rec)

lemma identify_blank: "identify_rooms blank_lib (zeros 7) ext 1 None = Inr []"
proof -
  have ne: "zeros 7 \<noteq> []" by (simp add: zeros_def)
  have props: "regionprops blank_lib im = [\<lparr>label = 1, area = 49, perimeter = 24\<rparr>]" for im
    by (simp add: blank_lib_def)
  have ex: "examine blank_lib im ext 7 0 29 edge \<lparr>label = 1, area = 49, perimeter = 24\<rparr> = Inr None"
    for im edge
    by (simp add: examine_def)
  have "identify_rooms_labelled blank_lib (zeros 7) ext 1 None = Inr []"
    unfolding identify_rooms_labelled_nonempty [OF ne] length_zeros blank_labeled props
      demo_thresholds blank_edge
    by (simp add: ex del: One_nat_def)
  then show ?thesis by (simp add: identify_rooms_def)
qed

lemma run_hatch:
  "extract_rooms_from_dwg diag_lib ascii_lower hatch_layers hatch_msp 1 7 =
     Inr ([map fin_pt square10], box10)"
  by (simp add: extract_rooms_from_dwg_def extract_walls_and_rooms_def room_layers_hatch
      rooms_hatch walls_hatch convert_diag identify_diag extents_of_square drawing_hatch
      reconcile_rooms_eq choose_extents_eq opt_truthy_def tuple_truthy_def)

lemma run_line:
  "extract_rooms_from_dwg diag_lib ascii_lower line_layers line_msp 1 7 = Inr ([], box20)"
  by (simp add: extract_rooms_from_dwg_def extract_walls_and_rooms_def room_layers_line
      rooms_from_layers_def walls_line convert_diag identify_diag extents_from_rooms_def
      drawing_line reconcile_rooms_eq choose_extents_eq opt_truthy_def tuple_truthy_def)

lemma walls_and_rooms_room:
  "extract_walls_and_rooms demo_lib ascii_lower room_layers_doc room_msp 1 7 =
     Inr (collect_walls room_layers_doc room_msp,
          [map fin_pt square10, map (to_drawing box10 7) demo_contour], box10)"
  by (simp add: extract_walls_and_rooms_def room_layers_room rooms_room convert_room
      demo_identify_any length_zeros extents_of_square reconcile_rooms_eq choose_extents_eq)

lemma run_room:
  "extract_rooms_from_dwg demo_lib ascii_lower room_layers_doc room_msp 1 7 =
     Inr ([map fin_pt square10, map (to_drawing box10 7) demo_contour], box12)"
  by (simp add: extract_rooms_from_dwg_def walls_and_rooms_room drawing_room opt_truthy_def
      tuple_truthy_def)

lemma rooms_from_layers_no_entities: "rooms_from_layers rls a [] = []"
  by (simp add: rooms_from_layers_def)

lemma run_empty:
  "extract_rooms_from_dwg blank_lib ascii_lower empty_layers [] 1 7 = Inr ([], empty_box)"
  by (simp add: extract_rooms_from_dwg_def extract_walls_and_rooms_def
      rooms_from_layers_no_entities collect_walls_def convert_empty identify_blank
      extents_from_rooms_def get_drawing_extents_def reconcile_rooms_eq choose_extents_eq
      opt_truthy_def tuple_truthy_def Let_def)

text \<open>
  Claim C1. The reconciliation step returns exactly the rooms of the room layers when
  there are three or more of them, and appends the raster rooms only when there are fewer
  than three; with 5 layer rooms and 10 raster rooms the result is the 5 layer rooms. The
  room list returned by \<open>extract_walls_and_rooms\<close> is this reconciliation of the rooms
  read from the room layers with the rooms that \<open>identify_rooms\<close> returned.
\<close>

theorem reconciler_prefers_layer_rooms:
  "(3 \<le> length from_layers \<longrightarrow> reconcile_rooms from_layers from_walls = from_layers) \<and>
   (length from_layers < 3 \<longrightarrow> reconcile_rooms from_layers from_walls = from_layers @ from_walls) \<and>
   (length from_layers = 5 \<and> length from_walls = 10 \<longrightarrow>
      reconcile_rooms from_layers from_walls = from_layers) \<and>
   (extract_walls_and_rooms lib lower layers msp a n = Inr (walls, rooms, ext) \<longrightarrow>
      (\<exists>img raster.
         identify_rooms lib img (walls_extents walls) a None = Inr raster \<and>
         rooms = reconcile_rooms (rooms_from_layers (room_layers_of lower layers) a msp) raster))"
proof -
  have "\<exists>img raster.
         identify_rooms lib img (walls_extents walls) a None = Inr raster \<and>
         rooms = reconcile_rooms (rooms_from_layers (room_layers_of lower layers) a msp) raster"
    if "extract_walls_and_rooms lib lower layers msp a n = Inr (walls, rooms, ext)"
    using extract_walls_and_rooms_result [OF that] by blast
  then show ?thesis
    by (simp add: reconcile_rooms_eq)
qed

text \<open>Five layer rooms against ten raster rooms, and one layer room against ten.\<close>

theorem reconciler_prefers_layer_rooms_witness:
  "length five_rooms = 5 \<and> length ten_rooms = 10 \<and>
   reconcile_rooms five_rooms ten_rooms = five_rooms \<and>
   reconcile_rooms [triangle] ten_rooms = triangle # ten_rooms"
  using reconciler_prefers_layer_rooms [of five_rooms ten_rooms]
    reconciler_prefers_layer_rooms [of "[triangle]" ten_rooms]
  by (simp add: five_rooms_def ten_rooms_def)

lemma ext_rooms_hatch:
  "extents_from_rooms (rooms_from_layers (room_layers_of ascii_lower hatch_layers) 1 hatch_msp)
     = Some box10"
  by (simp add: room_layers_hatch rooms_hatch extents_of_square)

lemma ext_rooms_line:
  "extents_from_rooms (rooms_from_layers (room_layers_of ascii_lower line_layers) 1 line_msp)
     = None"
  by (simp add: room_layers_line rooms_from_layers_def extents_from_rooms_def)

lemma walls_ext_line: "walls_extents (collect_walls line_layers line_msp) = box20"
  by (simp add: walls_line walls_ext_diag)

lemma walls_ext_hatch: "walls_extents (collect_walls hatch_layers hatch_msp) = box20"
  by (simp add: walls_hatch walls_ext_diag)

text \<open>
  Claim C2, as amended. When the pipeline returns, the final extents are the extents of
  the drawing entities if \<open>get_drawing_extents\<close> found any point; otherwise the extents of
  the rooms read from the room layers if there are such rooms; otherwise, if there is at
  least one wall segment, the extents of the wall segments.
\<close>

theorem final_extents_priority:
  assumes "extract_rooms_from_dwg lib lower layers msp a n = Inr (rooms, ext)"
  shows "(\<forall>d. get_drawing_extents msp = Some d \<longrightarrow> ext = d) \<and>
         (\<forall>r. get_drawing_extents msp = None \<and>
               extents_from_rooms (rooms_from_layers (room_layers_of lower layers) a msp) = Some r
               \<longrightarrow> ext = r) \<and>
         (get_drawing_extents msp = None \<and>
          extents_from_rooms (rooms_from_layers (room_layers_of lower layers) a msp) = None \<and>
          concat (collect_walls layers msp) \<noteq> []
          \<longrightarrow> ext = walls_extents (collect_walls layers msp))"
  using final_extents_eq [OF assms] by auto

text \<open>
  The three example documents: entity extents present; entity extents absent and a room
  layer present; only wall lines.
\<close>

theorem final_extents_priority_witness:
  "extract_rooms_from_dwg demo_lib ascii_lower room_layers_doc room_msp 1 7 =
     Inr ([map fin_pt square10, map (to_drawing box10 7) demo_contour], box12) \<and>
   get_drawing_extents room_msp = Some box12 \<and>
   extract_rooms_from_dwg diag_lib ascii_lower hatch_layers hatch_msp 1 7 =
     Inr ([map fin_pt square10], box10) \<and>
   get_drawing_extents hatch_msp = None \<and>
   extents_from_rooms (rooms_from_layers (room_layers_of ascii_lower hatch_layers) 1 hatch_msp)
     = Some box10 \<and>
   extract_rooms_from_dwg diag_lib ascii_lower line_layers line_msp 1 7 = Inr ([], box20) \<and>
   get_drawing_extents line_msp = None \<and>
   extents_from_rooms (rooms_from_layers (room_layers_of ascii_lower line_layers) 1 line_msp)
     = None \<and>
   concat (collect_walls line_layers line_msp) \<noteq> [] \<and>
   walls_extents (collect_walls line_layers line_msp) = box20"
  using final_extents_priority [OF run_room] final_extents_priority [OF run_hatch]
    final_extents_priority [OF run_line]
  by (simp add: run_room run_hatch run_line drawing_room drawing_hatch drawing_line
      ext_rooms_hatch ext_rooms_line walls_ext_line walls_line)

text \<open>
  Claim C2 as stated fails: in the document with a hatch on a room layer and one wall line,
  no entity contributes to the entity extents, the wall extents are (0, 0, 20, 20) and the
  room extents are (0, 0, 10, 10); the claim gives the wall extents priority, the pipeline
  returns the room extents.
\<close>

theorem final_extents_priority_counterexample:
  "get_drawing_extents hatch_msp = None \<and>
   walls_extents (collect_walls hatch_layers hatch_msp) = box20 \<and>
   extents_from_rooms (rooms_from_layers (room_layers_of ascii_lower hatch_layers) 1 hatch_msp)
     = Some box10 \<and>
   extract_rooms_from_dwg diag_lib ascii_lower hatch_layers hatch_msp 1 7 =
     Inr ([map fin_pt square10], box10) \<and>
   box10 \<noteq> box20"
  by (simp add: drawing_hatch walls_ext_hatch ext_rooms_hatch run_hatch)
    (simp add: box10_def box20_def)

text \<open>
  Claim C3, evaluated on the code. For a drawing without entities the pipeline, when it
  returns, returns the rooms that the raster detector finds on the blank image, and the
  extents \<open>(inf, inf, -inf, -inf)\<close>, not the default \<open>(0, 0, 1000, 1000)\<close>: the tuple that
  \<open>convert_walls_to_image\<close> returns is true in both conditions that guard the default.
\<close>

theorem empty_drawing_extents:
  assumes "extract_rooms_from_dwg lib lower layers [] a n = Inr (rooms, ext)"
  shows "ext = (PosInf, PosInf, NegInf, NegInf) \<and> ext \<noteq> default_extents \<and>
         identify_rooms lib (zeros n) (PosInf, PosInf, NegInf, NegInf) a None = Inr rooms"
proof -
  from extract_rooms_from_dwg_result [OF assms] obtain walls ext'
    where w: "extract_walls_and_rooms lib lower layers [] a n = Inr (walls, rooms, ext')"
      and e: "ext = (case get_drawing_extents [] of Some d \<Rightarrow> d | None \<Rightarrow> ext')"
    by blast
  have none: "get_drawing_extents [] = None" by (simp add: get_drawing_extents_def)
  have walls: "collect_walls layers [] = []" by (simp add: collect_walls_def)
  from extract_walls_and_rooms_result [OF w] obtain img from_walls
    where "convert_walls_to_image lib [] n = Inr (img, walls_extents [])"
      and "identify_rooms lib img (walls_extents []) a None = Inr from_walls"
      and "rooms = reconcile_rooms (rooms_from_layers (room_layers_of lower layers) a []) from_walls"
      and "ext' = choose_extents
                   (extents_from_rooms (rooms_from_layers (room_layers_of lower layers) a []))
                   (walls_extents [])"
    unfolding walls by blast
  then show ?thesis
    using e none
    by (simp add: convert_empty rooms_from_layers_no_entities reconcile_rooms_eq
        choose_extents_eq extents_from_rooms_def walls_extents_def empty_box_def
        default_extents_def)
qed

text \<open>The document with the default layer only, on a 7x7 raster.\<close>

theorem empty_drawing_extents_witness:
  "extract_rooms_from_dwg blank_lib ascii_lower empty_layers [] 1 7 =
     Inr ([], (PosInf, PosInf, NegInf, NegInf)) \<and>
   (PosInf, PosInf, NegInf, NegInf) \<noteq> default_extents"
  using empty_drawing_extents [of blank_lib ascii_lower empty_layers 1 7 "[]" empty_box] run_empty
  by (simp add: empty_box_def)

text \<open>
  Claim C9. Every room polygon in the list returned by \<open>extract_walls_and_rooms\<close>, from a
  room layer or from the raster detector, has at least 3 vertices.
\<close>

theorem rooms_have_three_vertices:
  assumes "extract_walls_and_rooms lib lower layers msp a n = Inr (walls, rooms, ext)"
    and "room \<in> set rooms"
  shows "3 \<le> length room"
proof -
  from extract_walls_and_rooms_result [OF assms(1)] obtain img from_walls
    where ident: "identify_rooms lib img (walls_extents walls) a None = Inr from_walls"
      and rooms: "rooms = reconcile_rooms (rooms_from_layers (room_layers_of lower layers) a msp)
                    from_walls"
    by blast
  from rooms assms(2)
  have "room \<in> set (rooms_from_layers (room_layers_of lower layers) a msp) \<or> room \<in> set from_walls"
    by (auto simp: reconcile_rooms_eq split: if_splits)
  then show ?thesis
    using rooms_from_layers_length identify_rooms_vertex_bounds [OF ident] by blast
qed

text \<open>
  The document with a closed polyline on the layer ROOM: one room comes from the layer, one
  from the raster.
\<close>

theorem rooms_have_three_vertices_witness:
  "extract_walls_and_rooms demo_lib ascii_lower room_layers_doc room_msp 1 7 =
     Inr (collect_walls room_layers_doc room_msp,
          [map fin_pt square10, map (to_drawing box10 7) demo_contour], box10) \<and>
   3 \<le> length (map fin_pt square10) \<and> 3 \<le> length (map (to_drawing box10 7) demo_contour)"
  using rooms_have_three_vertices [OF walls_and_rooms_room, of "map fin_pt square10"]
    rooms_have_three_vertices [OF walls_and_rooms_room, of "map (to_drawing box10 7) demo_contour"]
    walls_and_rooms_room
  by simp

section \<open>Properties of the layer classifier\<close>

lemma lower_0: "ascii_lower (asc ''0'') = asc ''0''"
  by (simp add: ascii_lower_def asc_def)

lemma lower_awall: "ascii_lower (asc ''A-WALL'') = asc ''a-wall''"
  by (simp add: ascii_lower_def asc_def)

lemma lower_door: "ascii_lower (asc ''DOOR'') = asc ''door''"
  by (simp add: ascii_lower_def asc_def)

lemma text_0: "\<not> is_text_layer ascii_lower (asc ''0'')"
  unfolding is_text_layer_def check_keywords_def lower_0
  by (simp add: text_keywords_def wenzi_def bianhao_def asc_def ascii_lower_def)

lemma text_awall: "\<not> is_text_layer ascii_lower (asc ''A-WALL'')"
  unfolding is_text_layer_def check_keywords_def lower_awall
  by (simp add: text_keywords_def wenzi_def bianhao_def asc_def ascii_lower_def)

lemma text_door: "\<not> is_text_layer ascii_lower (asc ''DOOR'')"
  unfolding is_text_layer_def check_keywords_def lower_door
  by (simp add: text_keywords_def wenzi_def bianhao_def asc_def ascii_lower_def)

lemma room_0: "\<not> is_room_layer ascii_lower (asc ''0'') unused_info"
  unfolding is_room_layer_def check_keywords_def lower_0
  by (simp add: room_keywords_def asc_def ascii_lower_def histogram_says_room_def unused_info_def)

lemma room_awall: "\<not> is_room_layer ascii_lower (asc ''A-WALL'') (line_info n)"
  unfolding is_room_layer_def check_keywords_def lower_awall
  by (simp add: room_keywords_def asc_def ascii_lower_def histogram_says_room_def line_info_def)

lemma room_door: "\<not> is_room_layer ascii_lower (asc ''DOOR'') (line_info n)"
  unfolding is_room_layer_def check_keywords_def lower_door
  by (simp add: room_keywords_def asc_def ascii_lower_def histogram_says_room_def line_info_def)

lemma demo_step1:
  "foldl (step1 ascii_lower) no_classes wall_doc_layers = no_classes"
  by (simp add: wall_doc_layers_def step1_def text_0 text_awall text_door room_0 room_awall
      room_door)

lemma wall_0: "\<not> check_keywords ascii_lower (asc ''0'') wall_keywords"
  unfolding check_keywords_def lower_0
  by (simp add: wall_keywords_def asc_def ascii_lower_def)

lemma wall_awall: "check_keywords ascii_lower (asc ''A-WALL'') wall_keywords"
  unfolding check_keywords_def lower_awall
  by (simp add: wall_keywords_def asc_def ascii_lower_def)

lemma wall_door: "\<not> check_keywords ascii_lower (asc ''DOOR'') wall_keywords"
  unfolding check_keywords_def lower_door
  by (simp add: wall_keywords_def asc_def ascii_lower_def)

lemma door_0: "\<not> check_keywords ascii_lower (asc ''0'') door_window_keywords"
  unfolding check_keywords_def lower_0
  by (simp add: door_window_keywords_def asc_def ascii_lower_def)

lemma door_door: "check_keywords ascii_lower (asc ''DOOR'') door_window_keywords"
  unfolding check_keywords_def lower_door
  by (simp add: door_window_keywords_def asc_def ascii_lower_def)

lemma excl_0: "\<not> check_keywords ascii_lower (asc ''0'') exclude_keywords"
  unfolding check_keywords_def lower_0
  by (simp add: exclude_keywords_def asc_def ascii_lower_def)

lemma special_0: "\<not> (\<exists>keyword \<in> set (special_keywords (asc ''0'')). contains keyword (asc ''0''))"
  by (simp add: special_keywords_def asc_def)

lemma plain_names:
  "\<not> contains partition_wall (asc ''0'')" "\<not> contains brick_wall (asc ''0'')"
  "\<not> contains partition_wall (asc ''A-WALL'')" "\<not> contains brick_wall (asc ''A-WALL'')"
  "\<not> contains partition_wall (asc ''DOOR'')" "\<not> contains brick_wall (asc ''DOOR'')"
  by (simp_all add: partition_wall_def brick_wall_def asc_def)

lemma demo_classify:
  "classify_layers ascii_lower wall_doc_layers =
     \<lparr>wall_layers = [asc ''A-WALL''], door_window_layers = [asc ''DOOR''], room_layers = [],
      excluded_layers = [asc ''0''], text_layers = []\<rparr>"
proof -
  have names: "asc ''0'' \<noteq> asc ''A-WALL''" "asc ''0'' \<noteq> asc ''DOOR''"
    "asc ''A-WALL'' \<noteq> asc ''DOOR''"
    by (simp_all add: asc_def)
  have s2: "foldl (step2 ascii_lower) no_classes wall_doc_layers =
     \<lparr>wall_layers = [asc ''A-WALL''], door_window_layers = [asc ''DOOR''], room_layers = [],
      excluded_layers = [asc ''0''], text_layers = []\<rparr>"
    by (simp add: wall_doc_layers_def step2_def no_classes_def wall_0 wall_awall wall_door
        door_0 door_door excl_0 special_0 plain_names text_door looks_like_walls_def
        unused_info_def get0_def)
  show ?thesis
    unfolding classify_layers_def Let_def demo_step1 s2
    by (simp add: step3_def step4_wall_def step4_door_def plain_names text_awall text_door names
        names [symmetric])
qed

lemma demo_keep: "identify_wall_layers ascii_lower wall_doc_layers = [asc ''A-WALL'', asc ''DOOR'']"
  by (simp add: identify_wall_layers_def demo_classify) (simp add: asc_def)

lemma foldl_invariant:
  assumes "P s" and "\<And>s x. P s \<Longrightarrow> x \<in> set xs \<Longrightarrow> P (f s x)"
  shows "P (foldl f s xs)"
  using assms by (induction xs arbitrary: s) auto

lemma step1_names:
  assumes "set (wall_layers st) \<union> set (door_window_layers st) \<union> set (excluded_layers st) \<subseteq> N"
    and "fst entry \<in> N"
  shows "set (wall_layers (step1 lower st entry)) \<union> set (door_window_layers (step1 lower st entry)) \<union>
         set (excluded_layers (step1 lower st entry)) \<subseteq> N"
  using assms by (cases entry) (auto simp: step1_def)

lemma step2_names:
  assumes "set (wall_layers st) \<union> set (door_window_layers st) \<union> set (excluded_layers st) \<subseteq> N"
    and "fst entry \<in> N"
  shows "set (wall_layers (step2 lower st entry)) \<union> set (door_window_layers (step2 lower st entry)) \<union>
         set (excluded_layers (step2 lower st entry)) \<subseteq> N"
  using assms by (cases entry) (auto simp: step2_def)

lemma step3_names:
  assumes "set (wall_layers st) \<union> set (door_window_layers st) \<union> set (excluded_layers st) \<subseteq> N"
    and "x \<in> N"
  shows "set (wall_layers (step3 st x)) \<union> set (door_window_layers (step3 st x)) \<union>
         set (excluded_layers (step3 st x)) \<subseteq> N"
  using assms set_remove1_subset [of x "excluded_layers st"]
  by (auto simp: step3_def Let_def)

lemma step4_wall_names:
  assumes "set (wall_layers st) \<union> set (door_window_layers st) \<union> set (excluded_layers st) \<subseteq> N"
    and "x \<in> N"
  shows "set (wall_layers (step4_wall lower st x)) \<union> set (door_window_layers (step4_wall lower st x)) \<union>
         set (excluded_layers (step4_wall lower st x)) \<subseteq> N"
  using assms set_remove1_subset [of x "wall_layers st"]
  by (auto simp: step4_wall_def Let_def)

lemma step4_door_names:
  assumes "set (wall_layers st) \<union> set (door_window_layers st) \<union> set (excluded_layers st) \<subseteq> N"
    and "x \<in> N"
  shows "set (wall_layers (step4_door lower st x)) \<union> set (door_window_layers (step4_door lower st x)) \<union>
         set (excluded_layers (step4_door lower st x)) \<subseteq> N"
  using assms set_remove1_subset [of x "door_window_layers st"]
  by (auto simp: step4_door_def Let_def)

lemma classify_layers_names:
  "set (wall_layers (classify_layers lower layers)) \<union>
   set (door_window_layers (classify_layers lower layers)) \<union>
   set (excluded_layers (classify_layers lower layers)) \<subseteq> fst ` set layers"
proof -
  let ?N = "fst ` set layers"
  let ?P = "\<lambda>st::layer_classes. set (wall_layers st) \<union> set (door_window_layers st) \<union> set (excluded_layers st) \<subseteq> ?N"
  define s1 where "s1 = foldl (step1 lower) no_classes layers"
  define s2 where "s2 = foldl (step2 lower) s1 layers"
  define s3 where "s3 = foldl step3 s2 (excluded_layers s2)"
  define s4 where "s4 = foldl (step4_wall lower) s3 (wall_layers s3)"
  define s5 where "s5 = foldl (step4_door lower) s4 (door_window_layers s4)"
  have p0: "?P no_classes" by (simp add: no_classes_def)
  have p1: "?P s1" unfolding s1_def
  proof (rule foldl_invariant [where P = ?P, OF p0])
    fix s :: layer_classes and x assume "?P s" "x \<in> set layers"
    then show "?P (step1 lower s x)" by (intro step1_names) simp_all
  qed
  have p2: "?P s2" unfolding s2_def
  proof (rule foldl_invariant [where P = ?P, OF p1])
    fix s :: layer_classes and x assume "?P s" "x \<in> set layers"
    then show "?P (step2 lower s x)" by (intro step2_names) simp_all
  qed
  have p3: "?P s3" unfolding s3_def
  proof (rule foldl_invariant [where P = ?P, OF p2])
    fix s :: layer_classes and x assume "?P s" "x \<in> set (excluded_layers s2)"
    with p2 show "?P (step3 s x)" by (intro step3_names) auto
  qed
  have p4: "?P s4" unfolding s4_def
  proof (rule foldl_invariant [where P = ?P, OF p3])
    fix s :: layer_classes and x assume "?P s" "x \<in> set (wall_layers s3)"
    with p3 show "?P (step4_wall lower s x)" by (intro step4_wall_names) auto
  qed
  have p5: "?P s5" unfolding s5_def
  proof (rule foldl_invariant [where P = ?P, OF p4])
    fix s :: layer_classes and x assume "?P s" "x \<in> set (door_window_layers s4)"
    with p4 show "?P (step4_door lower s x)" by (intro step4_door_names) auto
  qed
  have "classify_layers lower layers = s5"
    by (simp add: classify_layers_def Let_def s1_def s2_def s3_def s4_def s5_def)
  with p5 show ?thesis by simp
qed

text \<open>
  Claim C7, as amended. The keep-set returned by \<open>identify_wall_layers\<close> is the union of
  the wall layers and the door-window layers, all of them layers of the given mapping. The
  default layer 0 is added to the keep-list by \<open>clean_layers\<close>: after its first statement
  the list holds the keep-set and the layer 0.
\<close>

theorem keep_set_is_wall_and_door_layers:
  "set (identify_wall_layers lower layers) =
     set (wall_layers (classify_layers lower layers)) \<union>
     set (door_window_layers (classify_layers lower layers)) \<and>
   set (identify_wall_layers lower layers) \<subseteq> fst ` set layers \<and>
   set (clean_layers_keep (identify_wall_layers lower layers)) =
     insert (asc ''0'') (set (identify_wall_layers lower layers))"
  using classify_layers_names [of lower layers]
  by (auto simp: identify_wall_layers_def clean_layers_keep_def Let_def)

text \<open>The layer table with the layers 0, A-WALL and DOOR.\<close>

theorem keep_set_is_wall_and_door_layers_witness:
  "identify_wall_layers ascii_lower wall_doc_layers = [asc ''A-WALL'', asc ''DOOR''] \<and>
   wall_layers (classify_layers ascii_lower wall_doc_layers) = [asc ''A-WALL''] \<and>
   door_window_layers (classify_layers ascii_lower wall_doc_layers) = [asc ''DOOR''] \<and>
   set (clean_layers_keep (identify_wall_layers ascii_lower wall_doc_layers)) =
     {asc ''0'', asc ''A-WALL'', asc ''DOOR''}"
  using keep_set_is_wall_and_door_layers [of ascii_lower wall_doc_layers]
  by (simp add: demo_keep demo_classify)

text \<open>
  Claim C7 as stated fails: for the layer table with the layers 0, A-WALL and DOOR the
  layer 0 is classified as excluded, and the keep-set that \<open>identify_wall_layers\<close> returns
  does not contain it.
\<close>

theorem keep_set_default_layer_counterexample:
  "identify_wall_layers ascii_lower wall_doc_layers = [asc ''A-WALL'', asc ''DOOR''] \<and>
   asc ''0'' \<in> fst ` set wall_doc_layers \<and>
   asc ''0'' \<notin> set (identify_wall_layers ascii_lower wall_doc_layers)"
  by (simp add: demo_keep) (simp add: wall_doc_layers_def asc_def)

section \<open>Properties of the vector room assembler\<close>







subsection \<open>The interval geometry, evaluated\<close>










text \<open>
  A LINE among the wall entities ends the conversion with TypeError, and so does a POLYLINE
  with a vertex.
\<close>

lemma line_entity_raises:
  "remove_doors_from_walls sh (LINE l a b # ents) doors = Inl TypeError"
  "closed_polygons sh (LINE l a b # ents) doors = Inl TypeError"
  "remove_doors_from_walls sh (POLYLINE l c (v # vs) # ents) doors = Inl TypeError"
  by (simp_all add: remove_doors_from_walls_def closed_polygons_def)


end
